theory Spec2Isabelle
  imports Main "HOL-Library.Log_Nat" "HOL-Library.AList"
begin

section \<open>Python values used by both modules\<close>

text \<open>
  Exceptions that the modelled code can raise or catch. \<open>GLibError\<close> is
  \<^verbatim>\<open>GLib.Error\<close>; every other constructor is a subclass of Python's
  \<^verbatim>\<open>Exception\<close>, which is what the broad handlers catch.
\<close>

datatype exn =
    GLibError
  | ZeroDivisionError
  | OverflowError
  | ValueError
  | KeyError
  | TypeError
  | AttributeError
  | OtherException

subsection \<open>Double-precision arithmetic\<close>

text \<open>
  A finite Python \<^verbatim>\<open>float\<close> is a binary64 number. Its value is kept as a
  rational; \<open>b64_round\<close> rounds an exact rational to the nearest binary64
  value, ties to even, with gradual underflow (the unit in the last place never
  drops below \<open>2^-1074\<close>). A result of magnitude \<open>2^1024\<close> or more is
  an overflow. The sign of a zero is not kept: \<^verbatim>\<open>int(-0.0)\<close> and
  \<^verbatim>\<open>int(0.0)\<close> are both \<open>0\<close>.
\<close>

definition scale2 :: "rat \<Rightarrow> int \<Rightarrow> rat" where
  \<comment> \<open>\<open>q / 2^e\<close> for an integer exponent \<open>e\<close> of either sign\<close>
  "scale2 q e = (if 0 \<le> e then q / 2 ^ nat e else q * 2 ^ nat (- e))"

definition round_half_even :: "rat \<Rightarrow> int" where
  "round_half_even r =
     (let f = \<lfloor>r\<rfloor>; d = r - of_int f
      in if d < 1 / 2 then f
         else if 1 / 2 < d then f + 1
         else if even f then f else f + 1)"

definition floor_log2 :: "rat \<Rightarrow> int" where
  \<comment> \<open>\<open>\<lfloor>log\<^sub>2 q\<rfloor>\<close> of a positive rational, from the bit lengths of
      numerator and denominator\<close>
  "floor_log2 q =
     (let (a, b) = quotient_of q; d = bitlen a - bitlen b
      in if scale2 1 (- d) \<le> q then d else d - 1)"

definition b64_ulp_exp :: "rat \<Rightarrow> int" where
  "b64_ulp_exp q = max (- 1074) (floor_log2 \<bar>q\<bar> - 52)"

definition b64_round :: "rat \<Rightarrow> rat" where
  "b64_round q =
     (if q = 0 then 0
      else let e = b64_ulp_exp q
           in scale2 (of_int (round_half_even (scale2 q e))) (- e))"

definition b64_overflow :: "rat \<Rightarrow> bool" where
  "b64_overflow x \<longleftrightarrow> 2 ^ 1024 \<le> \<bar>x\<bar>"

definition py_truediv :: "int \<Rightarrow> int \<Rightarrow> exn + rat" where
  \<comment> \<open>\<^verbatim>\<open>a / b\<close> on two ints: correctly rounded, raising on a zero divisor
      and on a quotient too large for a float\<close>
  "py_truediv a b =
     (if b = 0 then Inl ZeroDivisionError
      else let x = b64_round (of_int a / of_int b)
           in if b64_overflow x then Inl OverflowError else Inr x)"

definition py_float_mul :: "rat \<Rightarrow> rat \<Rightarrow> rat option" where
  \<comment> \<open>\<^verbatim>\<open>x * y\<close> on floats; \<open>None\<close> is an infinite result (no exception is
      raised by the multiplication itself)\<close>
  "py_float_mul x y =
     (let z = b64_round (x * y) in if b64_overflow z then None else Some z)"

definition py_int_of_float :: "rat option \<Rightarrow> exn + int" where
  \<comment> \<open>\<^verbatim>\<open>int(x)\<close>: truncation toward zero; an infinity raises\<close>
  "py_int_of_float x =
     (case x of
        None \<Rightarrow> Inl OverflowError
      | Some r \<Rightarrow> Inr (if 0 \<le> r then \<lfloor>r\<rfloor> else \<lceil>r\<rceil>))"


definition percent_of :: "int \<Rightarrow> int \<Rightarrow> exn + int" where
  \<comment> \<open>\<^verbatim>\<open>int((value / self.max_screen) * 100)\<close>\<close>
  "percent_of v m =
     (case py_truediv v m of
        Inl e \<Rightarrow> Inl e
      | Inr q \<Rightarrow> py_int_of_float (py_float_mul q 100))"


subsection \<open>Strings and paths\<close>

fun str_nat :: "nat \<Rightarrow> string" where
  "str_nat n =
     (if n < 10 then [char_of (48 + n)]
      else str_nat (n div 10) @ [char_of (48 + n mod 10)])"

declare str_nat.simps [simp del]

definition str_int :: "int \<Rightarrow> string" where
  \<comment> \<open>the text an f-string gives for an int\<close>
  "str_int i = (if i < 0 then CHR ''-'' # str_nat (nat (- i)) else str_nat (nat i))"

definition os_path_join :: "string \<Rightarrow> string \<Rightarrow> string" where
  \<comment> \<open>\<^verbatim>\<open>os.path.join(a, b)\<close> for a relative second component\<close>
  "os_path_join a b =
     (if a = [] then b
      else if last a = CHR ''/'' then a @ b
      else a @ ''/'' @ b)"

subsection \<open>Virtual-machine detection\<close>

text \<open>
  Both modules carry the same \<^verbatim>\<open>is_running_in_vm\<close>. It reads two text
  files. A file either cannot be opened or read (\<^verbatim>\<open>FileNotFoundError\<close>,
  \<^verbatim>\<open>IOError\<close>: the handler passes), or its bytes do not decode
  (\<^verbatim>\<open>UnicodeDecodeError\<close>, a \<^verbatim>\<open>ValueError\<close> that no handler of the
  function catches), or it yields its text. A text is kept in UTF-8.

  \<^verbatim>\<open>str.strip\<close> and \<^verbatim>\<open>str.lower\<close> are Python's own, over all of
  Unicode; they are parameters of the model. The names searched for are ASCII,
  so a search in the UTF-8 text finds what the search in the code points finds.
\<close>

datatype text_file = CannotRead | Undecodable | Text string

fun contains :: "string \<Rightarrow> string \<Rightarrow> bool" where
  \<comment> \<open>\<^verbatim>\<open>needle in hay\<close>\<close>
  "contains needle [] = (needle = [])"
| "contains needle (c # cs) =
     (take (length needle) (c # cs) = needle \<or> contains needle cs)"

definition is_running_in_vm ::
  "(string \<Rightarrow> string) \<Rightarrow> (string \<Rightarrow> string) \<Rightarrow> text_file \<Rightarrow> text_file \<Rightarrow> exn + bool" where
  "is_running_in_vm str_strip str_lower product_file cpuinfo_file =
     (case (case product_file of
              CannotRead \<Rightarrow> Inr False
            | Undecodable \<Rightarrow> Inl ValueError
            | Text content \<Rightarrow>
                (let product_name = str_lower (str_strip content)
                 in Inr (list_ex (\<lambda>vm_name. contains vm_name product_name)
                      [''vmware'', ''virtualbox'', ''qemu'', ''kvm'', ''virtual'', ''vm'']))) of
        Inl e \<Rightarrow> Inl e
      | Inr True \<Rightarrow> Inr True
      | Inr False \<Rightarrow>
          (case cpuinfo_file of
             CannotRead \<Rightarrow> Inr False
           | Undecodable \<Rightarrow> Inl ValueError
           | Text content \<Rightarrow>
               (let cpuinfo = str_lower content
                in Inr (list_ex (\<lambda>vm_name. contains vm_name cpuinfo)
                     [''vmware'', ''qemu'', ''kvm'', ''hypervisor'']))))"

section \<open>services/brightness.py\<close>

subsection \<open>Module level: device discovery and the environment\<close>

text \<open>
  The file system as the module reads it: a path that does not exist maps to
  \<open>None\<close>; an existing file maps to what \<^verbatim>\<open>int(f.readline())\<close> makes of
  its first line.
\<close>

datatype first_line = Parses int | Unparsable

type_synonym filesystem = "string \<rightharpoonup> first_line"

definition discover_screen_device :: "string list option \<Rightarrow> string" where
  \<comment> \<open>\<^verbatim>\<open>os.listdir("/sys/class/backlight")\<close>; \<open>None\<close> is FileNotFoundError\<close>
  "discover_screen_device listing =
     (case listing of
        None \<Rightarrow> []
      | Some ds \<Rightarrow> (case ds of [] \<Rightarrow> [] | d # _ \<Rightarrow> d))"

text \<open>
  The two module-level names every method reads: \<^verbatim>\<open>screen_device\<close> and
  \<^verbatim>\<open>vm_mode\<close> (the result of \<^verbatim>\<open>is_running_in_vm()\<close> at import; when
  that call raises, the module is not imported and there is no instance).
\<close>

record globals =
  screen_device :: string
  vm_mode :: bool

datatype log_level = LogDebug | LogInfo | LogWarning | LogError | LogException

text \<open>
  The instance. Beside the attributes set by \<^verbatim>\<open>__init__\<close> it carries the
  trace of what the instance did to the outside: the payloads of the
  \<^verbatim>\<open>screen\<close> signal in emission order, the command lines handed to
  \<^verbatim>\<open>exec_shell_command_async\<close>, and the log calls.
\<close>

record brightness =
  self_vm_mode :: bool
  simulated_brightness :: int
  screen_backlight_path :: string
  max_screen :: int
  screen_monitor :: "string option"
  emitted :: "int list"
  requested :: "string list"
  logged :: "log_level list"

definition emit_screen :: "int \<Rightarrow> brightness \<Rightarrow> brightness" where
  "emit_screen p s = s\<lparr>emitted := emitted s @ [p]\<rparr>"

definition log_call :: "log_level \<Rightarrow> brightness \<Rightarrow> brightness" where
  "log_call l s = s\<lparr>logged := logged s @ [l]\<rparr>"

definition do_read_max_brightness :: "filesystem \<Rightarrow> string \<Rightarrow> exn + int" where
  "do_read_max_brightness fs path =
     (let max_brightness_path = os_path_join path ''max_brightness''
      in case fs max_brightness_path of
           None \<Rightarrow> Inr (- 1)
         | Some Unparsable \<Rightarrow> Inl ValueError
         | Some (Parses n) \<Rightarrow> Inr n)"

definition Brightness_init :: "globals \<Rightarrow> filesystem \<Rightarrow> exn + brightness" where
  "Brightness_init g fs =
     (let path = (if screen_device g \<noteq> []
                  then ''/sys/class/backlight/'' @ screen_device g else []);
          simulated = (vm_mode g \<and> screen_device g = [])
      in case (if simulated then Inr 100 else do_read_max_brightness fs path) of
           Inl e \<Rightarrow> Inl e
         | Inr m \<Rightarrow>
             let s = \<lparr> self_vm_mode = vm_mode g,
                       simulated_brightness = 100,
                       screen_backlight_path = path,
                       max_screen = m,
                       screen_monitor = None,
                       emitted = [],
                       requested = [],
                       logged = (if simulated then [LogInfo] else []) \<rparr>
             in if screen_device g = [] \<and> \<not> vm_mode g then Inr s
                else if screen_device g \<noteq> []
                then Inr (log_call LogInfo
                            (s\<lparr>screen_monitor := Some (path @ ''/brightness'')\<rparr>))
                else Inr (log_call LogInfo s))"

definition screen_monitor_changed :: "first_line \<Rightarrow> brightness \<Rightarrow> exn + brightness" where
  \<comment> \<open>the handler connected to the file watch; it exists only when a watch does\<close>
  "screen_monitor_changed content s =
     (case screen_monitor s of
        None \<Rightarrow> Inr s
      | Some _ \<Rightarrow>
          (case content of
             Unparsable \<Rightarrow> Inl ValueError
           | Parses n \<Rightarrow> Inr (emit_screen n s)))"

subsection \<open>The \<open>screen_brightness\<close> property\<close>

definition screen_brightness :: "globals \<Rightarrow> filesystem \<Rightarrow> brightness \<Rightarrow> (exn + int) \<times> brightness" where
  "screen_brightness g fs s =
     (if self_vm_mode s \<and> screen_device g = [] then (Inr (simulated_brightness s), s)
      else let brightness_path = os_path_join (screen_backlight_path s) ''brightness''
           in case fs brightness_path of
                Some (Parses n) \<Rightarrow> (Inr n, s)
              | Some Unparsable \<Rightarrow> (Inl ValueError, s)
              | None \<Rightarrow> (Inr (- 1), log_call LogWarning s))"

definition clamp_value :: "int \<Rightarrow> int \<Rightarrow> int" where
  \<comment> \<open>the first two lines of the setter\<close>
  "clamp_value v m = (if \<not> (0 \<le> v \<and> v \<le> m) then max 0 (min v m) else v)"

definition brightnessctl_args :: "globals \<Rightarrow> int \<Rightarrow> string" where
  "brightnessctl_args g v =
     ''--device '' @ [CHR 0x27] @ screen_device g @ [CHR 0x27] @ '' set '' @ str_int v"

definition exec_brightnessctl_async :: "exn option \<Rightarrow> string \<Rightarrow> brightness \<Rightarrow> exn option \<times> brightness" where
  \<comment> \<open>hands the command line to the shell helper; the first argument is what
      that call does: \<open>None\<close> when it returns, \<open>Some e\<close> when it raises\<close>
  "exec_brightnessctl_async outcome args s =
     (outcome, s\<lparr>requested := requested s @ [''brightnessctl '' @ args]\<rparr>)"

definition screen_brightness_try :: "globals \<Rightarrow> exn option \<Rightarrow> int \<Rightarrow> brightness \<Rightarrow> exn option \<times> brightness" where
  \<comment> \<open>the body of the setter's \<^verbatim>\<open>try\<close>, with the exception that leaves it, if any\<close>
  "screen_brightness_try g outcome v s =
     (if self_vm_mode s \<and> screen_device g = [] then
        let s1 = s\<lparr>simulated_brightness := v\<rparr>
        in case percent_of v (max_screen s1) of
             Inl e \<Rightarrow> (Some e, s1)
           | Inr p \<Rightarrow> (None, log_call LogDebug (emit_screen p s1))
      else
        case exec_brightnessctl_async outcome (brightnessctl_args g v) s of
          (Some e, s1) \<Rightarrow> (Some e, s1)
        | (None, s1) \<Rightarrow>
            (case percent_of v (max_screen s1) of
               Inl e \<Rightarrow> (Some e, s1)
             | Inr p \<Rightarrow> (None, emit_screen p s1)))"

definition screen_brightness_set :: "globals \<Rightarrow> exn option \<Rightarrow> int \<Rightarrow> brightness \<Rightarrow> exn option \<times> brightness" where
  \<comment> \<open>the setter; the first component is the exception that reaches the caller\<close>
  "screen_brightness_set g outcome value s =
     (let v = clamp_value value (max_screen s)
      in case screen_brightness_try g outcome v s of
           (None, s') \<Rightarrow> (None, s')
         | (Some GLibError, s') \<Rightarrow> (None, log_call LogError s')
         | (Some _, s') \<Rightarrow> (None, log_call LogException s'))"


definition vm_simulated :: "globals \<Rightarrow> brightness \<Rightarrow> bool" where
  \<comment> \<open>the instance as \<^verbatim>\<open>__init__\<close> leaves it when a virtual machine was
      detected and no backlight device was found\<close>
  "vm_simulated g s \<longleftrightarrow> self_vm_mode s \<and> screen_device g = [] \<and> max_screen s = 100"

definition run_setter_calls :: "globals \<Rightarrow> (exn option \<times> int) list \<Rightarrow> brightness \<Rightarrow> brightness" where
  \<comment> \<open>a sequence of assignments to the property, each with what the shell
      helper does during it\<close>
  "run_setter_calls g calls s =
     fold (\<lambda>(outcome, v) t. snd (screen_brightness_set g outcome v t)) calls s"

section \<open>utils/monitors.py\<close>

text \<open>
  The mapping returned by \<^verbatim>\<open>get_all_monitors\<close> is a Python dict: an
  association list in insertion order, where storing under a key that is
  already present replaces the value in place. Log calls of this module are
  not part of the model.
\<close>

type_synonym monitor_map = "(int \<times> string) list"

text \<open>
  One object of the decoded \<^verbatim>\<open>j/monitors\<close> reply; a key the object does
  not have is \<open>None\<close>. The reply itself either makes
  \<^verbatim>\<open>json.loads(self.send_command(...).reply)\<close> raise, or decodes to a list
  of objects.
\<close>

record monitor_obj =
  mon_id :: "int option"
  mon_name :: "string option"

datatype monitors_reply = MonitorsRaises exn | MonitorsDecoded "monitor_obj list"

text \<open>
  The \<^verbatim>\<open>monitor\<close> field of the decoded \<^verbatim>\<open>j/activeworkspace\<close> reply: the
  key is absent, or it holds JSON \<^verbatim>\<open>null\<close>, or it holds a string.
\<close>

datatype monitor_field = FieldAbsent | FieldNull | FieldName string

datatype workspace_reply = WorkspaceRaises exn | WorkspaceDecoded monitor_field

text \<open>
  What the display server answers for one monitor index: the lookup raises, or
  it gives a plug name, or it gives \<^verbatim>\<open>None\<close>.
\<close>

datatype plug_lookup = LookupRaises exn | PlugName "string option"

text \<open>
  The instance: \<open>display\<close> lists the lookups for the indices
  \<open>0..N-1\<close> (\<open>Inl e\<close> when \<^verbatim>\<open>self.display.get_n_monitors()\<close> raises
  \<open>e\<close>); \<open>ident\<close> is the identity of the object, which is what the
  cache hashes for \<^verbatim>\<open>self\<close>.
\<close>

record hyprland =
  ident :: nat
  display :: "exn + plug_lookup list"
  h_vm_mode :: bool

text \<open>
  The state shared by all instances: the store of the \<^verbatim>\<open>lru_cache\<close>
  around \<^verbatim>\<open>inner\<close>, most recently used entry first, and the trace of
  the commands sent over the socket.
\<close>

record resolver_state =
  lru :: "((int \<times> nat) \<times> monitor_map) list"
  sent :: "string list"

definition empty_resolver :: resolver_state where
  "empty_resolver = \<lparr> lru = [], sent = [] \<rparr>"

definition vm_fallback :: "hyprland \<Rightarrow> nat option" where
  \<comment> \<open>\<^verbatim>\<open>return 0\<close> in VM mode, \<^verbatim>\<open>return None\<close> otherwise\<close>
  "vm_fallback self = (if h_vm_mode self then Some 0 else None)"

fun build_monitors :: "monitor_obj list \<Rightarrow> monitor_map \<Rightarrow> exn + monitor_map" where
  \<comment> \<open>the dict comprehension: key first, then value, for each object in order\<close>
  "build_monitors [] acc = Inr acc"
| "build_monitors (m # ms) acc =
     (case mon_id m of
        None \<Rightarrow> Inl KeyError
      | Some i \<Rightarrow>
          (case mon_name m of
             None \<Rightarrow> Inl KeyError
           | Some n \<Rightarrow> build_monitors ms (AList.update i n acc)))"

definition get_all_monitors_try :: "monitors_reply \<Rightarrow> exn + monitor_map" where
  \<comment> \<open>the body of the \<^verbatim>\<open>try\<close> in \<^verbatim>\<open>get_all_monitors\<close>\<close>
  "get_all_monitors_try reply =
     (case reply of
        MonitorsRaises e \<Rightarrow> Inl e
      | MonitorsDecoded monitors \<Rightarrow> build_monitors monitors [])"

definition get_all_monitors_func :: "hyprland \<Rightarrow> monitors_reply \<Rightarrow> resolver_state \<Rightarrow> (exn + monitor_map) \<times> resolver_state" where
  \<comment> \<open>the undecorated method; the first component is its return value, or the
      exception that leaves it\<close>
  "get_all_monitors_func self reply st =
     (let st1 = st\<lparr>sent := sent st @ [''j/monitors'']\<rparr>
      in case get_all_monitors_try reply of
           Inr m \<Rightarrow> (Inr m, st1)
         | Inl e \<Rightarrow>
             if h_vm_mode self then (Inr [(0, ''XWAYLAND0'')], st1)
             else (Inr [], st1))"

definition ttl_key :: "rat \<Rightarrow> int \<Rightarrow> int" where
  \<comment> \<open>\<^verbatim>\<open>time.time() // seconds_to_live\<close>\<close>
  "ttl_key now seconds_to_live = \<lfloor>now / of_int seconds_to_live\<rfloor>"

definition ttl_lru_cache ::
  "int \<Rightarrow> nat \<Rightarrow> (hyprland \<Rightarrow> 'r \<Rightarrow> resolver_state \<Rightarrow> (exn + monitor_map) \<times> resolver_state)
    \<Rightarrow> hyprland \<Rightarrow> rat \<Rightarrow> 'r \<Rightarrow> resolver_state \<Rightarrow> (exn + monitor_map) \<times> resolver_state" where
  \<comment> \<open>the decorator: \<open>func\<close> runs only when the store has no entry for the key
      \<open>(ttl, self)\<close>; a hit moves the entry to the front, a miss stores the
      result in front and drops what lies beyond \<open>maxsize\<close>; an exception of
      \<open>func\<close> is passed on and nothing is stored\<close>
  "ttl_lru_cache seconds_to_live maxsize func self now reply st =
     (let key = (ttl_key now seconds_to_live, ident self)
      in case map_of (lru st) key of
           Some m \<Rightarrow> (Inr m, st\<lparr>lru := (key, m) # filter (\<lambda>e. fst e \<noteq> key) (lru st)\<rparr>)
         | None \<Rightarrow>
             (case func self reply st of
                (Inl e, st1) \<Rightarrow> (Inl e, st1)
              | (Inr m, st1) \<Rightarrow> (Inr m, st1\<lparr>lru := take maxsize ((key, m) # lru st1)\<rparr>)))"

definition get_all_monitors :: "hyprland \<Rightarrow> rat \<Rightarrow> monitors_reply \<Rightarrow> resolver_state \<Rightarrow> (exn + monitor_map) \<times> resolver_state" where
  \<comment> \<open>the decorated method: the wall clock reads \<open>now\<close>, and \<open>reply\<close> is what
      the socket would answer if asked\<close>
  "get_all_monitors = ttl_lru_cache 100 5 get_all_monitors_func"

fun scan_monitors :: "plug_lookup list \<Rightarrow> string \<Rightarrow> nat \<Rightarrow> nat option" where
  \<comment> \<open>the \<^verbatim>\<open>for\<close> loop, from index \<open>i\<close> on\<close>
  "scan_monitors [] plug_name i = None"
| "scan_monitors (l # ls) plug_name i =
     (case l of
        LookupRaises _ \<Rightarrow> scan_monitors ls plug_name (Suc i)
      | PlugName p \<Rightarrow>
          if p = Some plug_name then Some i else scan_monitors ls plug_name (Suc i))"

definition get_gdk_monitor_id_from_name :: "hyprland \<Rightarrow> string \<Rightarrow> exn + nat option" where
  "get_gdk_monitor_id_from_name self plug_name =
     (case display self of
        Inl e \<Rightarrow> Inr (vm_fallback self)
      | Inr outputs \<Rightarrow>
          (case scan_monitors outputs plug_name 0 of
             Some i \<Rightarrow> Inr (Some i)
           | None \<Rightarrow> Inr (vm_fallback self)))"

definition get_gdk_monitor_id :: "hyprland \<Rightarrow> rat \<Rightarrow> monitors_reply \<Rightarrow> int \<Rightarrow> resolver_state \<Rightarrow> (exn + nat option) \<times> resolver_state" where
  "get_gdk_monitor_id self now reply hyprland_id st =
     (case get_all_monitors self now reply st of
        (Inl e, st1) \<Rightarrow> (Inr (vm_fallback self), st1)
      | (Inr monitors, st1) \<Rightarrow>
          (case map_of monitors hyprland_id of
             Some name \<Rightarrow>
               (case get_gdk_monitor_id_from_name self name of
                  Inl e \<Rightarrow> (Inr (vm_fallback self), st1)
                | Inr r \<Rightarrow> (Inr r, st1))
           | None \<Rightarrow> (Inr (vm_fallback self), st1)))"

fun scan_monitors_value :: "plug_lookup list \<Rightarrow> string option \<Rightarrow> nat \<Rightarrow> nat option" where
  \<comment> \<open>the same \<^verbatim>\<open>for\<close> loop for whatever value is passed as
      \<^verbatim>\<open>plug_name\<close>: a string, or \<^verbatim>\<open>None\<close>, which equals the answer of
      an output without a plug name\<close>
  "scan_monitors_value [] query i = None"
| "scan_monitors_value (l # ls) query i =
     (case l of
        LookupRaises _ \<Rightarrow> scan_monitors_value ls query (Suc i)
      | PlugName p \<Rightarrow>
          if p = query then Some i else scan_monitors_value ls query (Suc i))"

definition gdk_monitor_id_from_value :: "hyprland \<Rightarrow> string option \<Rightarrow> exn + nat option" where
  \<comment> \<open>\<^verbatim>\<open>get_gdk_monitor_id_from_name\<close> as a caller inside the module reaches it,
      with a value that need not be a string\<close>
  "gdk_monitor_id_from_value self query =
     (case display self of
        Inl e \<Rightarrow> Inr (vm_fallback self)
      | Inr outputs \<Rightarrow>
          (case scan_monitors_value outputs query 0 of
             Some i \<Rightarrow> Inr (Some i)
           | None \<Rightarrow> Inr (vm_fallback self)))"

definition get_current_gdk_monitor_id :: "hyprland \<Rightarrow> workspace_reply \<Rightarrow> resolver_state \<Rightarrow> (exn + nat option) \<times> resolver_state" where
  "get_current_gdk_monitor_id self reply st =
     (let st1 = st\<lparr>sent := sent st @ [''j/activeworkspace'']\<rparr>
      in case reply of
           WorkspaceRaises e \<Rightarrow> (Inr (vm_fallback self), st1)
         | WorkspaceDecoded FieldAbsent \<Rightarrow> (Inr (vm_fallback self), st1)
         | WorkspaceDecoded FieldNull \<Rightarrow>
             (case gdk_monitor_id_from_value self None of
                Inl e \<Rightarrow> (Inr (vm_fallback self), st1)
              | Inr r \<Rightarrow> (Inr r, st1))
         | WorkspaceDecoded (FieldName name) \<Rightarrow>
             (case gdk_monitor_id_from_value self (Some name) of
                Inl e \<Rightarrow> (Inr (vm_fallback self), st1)
              | Inr r \<Rightarrow> (Inr r, st1)))"

definition run_resolver_calls :: "(hyprland \<times> rat \<times> monitors_reply) list \<Rightarrow> resolver_state \<Rightarrow> resolver_state" where
  \<comment> \<open>a history of \<^verbatim>\<open>get_all_monitors\<close> calls, by any instances\<close>
  "run_resolver_calls calls st =
     fold (\<lambda>(self, now, reply) t. snd (get_all_monitors self now reply t)) calls st"


section \<open>Reading a command line back\<close>

text \<open>
  The number a decimal numeral denotes, as \<^verbatim>\<open>brightnessctl\<close> reads its
  argument: an optional minus sign, then digits. It is not code of the
  repository; it states what value a command line carries.
\<close>

definition decimal_nat :: "string \<Rightarrow> nat" where
  "decimal_nat ds = foldl (\<lambda>n c. 10 * n + (of_char c - 48)) 0 ds"

definition decimal_value :: "string \<Rightarrow> int" where
  "decimal_value t =
     (case t of
        [] \<Rightarrow> 0
      | c # cs \<Rightarrow> if c = CHR ''-'' then - int (decimal_nat cs) else int (decimal_nat t))"

section \<open>The percentage as the specification words it\<close>


section \<open>Properties of the arithmetic\<close>


lemma scale2_powi: "scale2 q e = q / (2 powi e)"
  by (simp add: scale2_def power_int_def power_inverse field_simps)

lemma round_half_even_nonneg: "0 \<le> r \<Longrightarrow> 0 \<le> round_half_even r"
  by (simp add: round_half_even_def Let_def)

lemma round_half_even_le_int:
  assumes "r \<le> of_int k"
  shows "round_half_even r \<le> k"
proof -
  have f: "\<lfloor>r\<rfloor> \<le> k" using assms by (simp add: floor_le_iff)
  show ?thesis
  proof (cases "\<lfloor>r\<rfloor> = k")
    case True
    then have "of_int k \<le> r" by (metis of_int_floor_le)
    with assms have "r = of_int k" by simp
    then show ?thesis by (simp add: round_half_even_def)
  next
    case False
    with f have "\<lfloor>r\<rfloor> + 1 \<le> k" by simp
    with f show ?thesis by (simp add: round_half_even_def Let_def)
  qed
qed

lemma floor_log2_lower:
  assumes "0 < q"
  shows "2 powi (floor_log2 q) \<le> q"
proof -
  obtain a b where ab: "quotient_of q = (a, b)" by (cases "quotient_of q")
  have b: "0 < b" using ab by (rule quotient_of_denom_pos)
  have q: "q = of_int a / of_int b" using ab by (rule quotient_of_div)
  have a: "0 < a" using assms b q by (simp add: zero_less_divide_iff)
  define d where "d = bitlen a - bitlen b"
  have fl: "floor_log2 q = (if 2 powi d \<le> q then d else d - 1)"
    by (simp add: floor_log2_def ab d_def scale2_powi power_int_minus field_simps)
  have lo: "(2::rat) powi (bitlen a - 1) \<le> of_int a"
  proof -
    have "1 \<le> bitlen a" using a bitlen_eq_zero_iff [of a] bitlen_nonneg [of a]
      by (cases "bitlen a = 0") auto
    then have "(2::rat) powi (bitlen a - 1) = 2 ^ nat (bitlen a - 1)"
      by (simp add: power_int_def)
    also have "\<dots> = of_int (2 ^ nat (bitlen a - 1))" by simp
    also have "\<dots> \<le> of_int a" using bitlen_bounds [OF a] by (simp only: of_int_le_iff)
    finally show ?thesis .
  qed
  have hi: "of_int b \<le> (2::rat) powi (bitlen b)"
  proof -
    have "(2::rat) powi (bitlen b) = 2 ^ nat (bitlen b)"
      using bitlen_nonneg [of b] by (simp add: power_int_def)
    also have "\<dots> = of_int (2 ^ nat (bitlen b))" by simp
    finally have e: "(2::rat) powi (bitlen b) = of_int (2 ^ nat (bitlen b))" .
    have "b \<le> 2 ^ nat (bitlen b)" using bitlen_bounds [OF b] by simp
    then show ?thesis unfolding e by (simp only: of_int_le_iff)
  qed
  have "(2::rat) powi (d - 1) = 2 powi (bitlen a - 1) / 2 powi (bitlen b)"
    by (simp add: d_def power_int_diff)
  also have "\<dots> \<le> of_int a / of_int b"
    by (rule frac_le) (use lo hi a b in auto)
  finally have "(2::rat) powi (d - 1) \<le> q" using q by simp
  then show ?thesis by (simp add: fl)
qed

lemma floor_log2_upper:
  assumes "0 < q"
  shows "q < 2 powi (floor_log2 q + 1)"
proof -
  obtain a b where ab: "quotient_of q = (a, b)" by (cases "quotient_of q")
  have b: "0 < b" using ab by (rule quotient_of_denom_pos)
  have q: "q = of_int a / of_int b" using ab by (rule quotient_of_div)
  have a: "0 < a" using assms b q by (simp add: zero_less_divide_iff)
  define d where "d = bitlen a - bitlen b"
  have fl: "floor_log2 q = (if 2 powi d \<le> q then d else d - 1)"
    by (simp add: floor_log2_def ab d_def scale2_powi power_int_minus field_simps)
  have hi: "of_int a < (2::rat) powi (bitlen a)"
  proof -
    have "(2::rat) powi (bitlen a) = of_int (2 ^ nat (bitlen a))"
      using bitlen_nonneg [of a] by (simp add: power_int_def)
    moreover have "a < 2 ^ nat (bitlen a)" using bitlen_bounds [OF a] by simp
    ultimately show ?thesis by (simp only: of_int_less_iff)
  qed
  have lo: "(2::rat) powi (bitlen b - 1) \<le> of_int b"
  proof -
    have "1 \<le> bitlen b" using b bitlen_eq_zero_iff [of b] bitlen_nonneg [of b]
      by (cases "bitlen b = 0") auto
    then have "(2::rat) powi (bitlen b - 1) = of_int (2 ^ nat (bitlen b - 1))"
      by (simp add: power_int_def)
    moreover have "2 ^ nat (bitlen b - 1) \<le> b" using bitlen_bounds [OF b] by simp
    ultimately show ?thesis by (simp only: of_int_le_iff)
  qed
  have "of_int a / of_int b < (2::rat) powi (bitlen a) / 2 powi (bitlen b - 1)"
    by (rule frac_less) (use lo hi a b in auto)
  also have "\<dots> = 2 powi (d + 1)"
    by (simp add: d_def power_int_diff power_int_add field_simps)
  finally have "q < 2 powi (d + 1)" using q by simp
  then show ?thesis by (auto simp add: fl not_le)
qed

lemma b64_ulp_exp_nonpos:
  assumes "0 < q" "q < 2 ^ 53"
  shows "b64_ulp_exp q \<le> 0"
proof -
  have "2 powi (floor_log2 q) \<le> q" using assms(1) by (rule floor_log2_lower)
  also have "q < 2 powi 53" using assms(2) by simp
  finally have "(2::rat) powi (floor_log2 q) < 2 powi 53" .
  then have "floor_log2 q < 53"
    by (rule power_int_le_imp_less_exp [rotated]) simp_all
  then show ?thesis using assms(1) by (simp add: b64_ulp_exp_def)
qed

lemma b64_round_bounds:
  assumes "0 \<le> q" "q \<le> of_int B" "B < 2 ^ 53"
  shows "0 \<le> b64_round q \<and> b64_round q \<le> of_int B"
proof (cases "q = 0")
  case True
  with assms show ?thesis by (simp add: b64_round_def)
next
  case False
  with assms(1) have pos: "0 < q" by simp
  have "of_int B < (of_int (2 ^ 53) :: rat)" using assms(3) by (simp only: of_int_less_iff)
  with assms(2) have "q < 2 ^ 53" by simp
  with pos have e: "b64_ulp_exp q \<le> 0" by (rule b64_ulp_exp_nonpos)
  define n where "n = nat (- b64_ulp_exp q)"
  have r: "b64_round q = of_int (round_half_even (q * 2 ^ n)) / 2 ^ n"
    using False e by (auto simp add: b64_round_def Let_def scale2_def n_def)
  have "q * 2 ^ n \<le> of_int (B * 2 ^ n)" using assms(2) by simp
  then have "round_half_even (q * 2 ^ n) \<le> B * 2 ^ n" by (rule round_half_even_le_int)
  then have "(of_int (round_half_even (q * 2 ^ n)) :: rat) \<le> of_int (B * 2 ^ n)"
    by (simp only: of_int_le_iff)
  then have up: "b64_round q \<le> of_int B" by (simp add: r field_simps)
  have "0 \<le> round_half_even (q * 2 ^ n)"
    using assms(1) by (intro round_half_even_nonneg) simp
  then have "0 \<le> b64_round q" by (simp add: r)
  with up show ?thesis by simp
qed

lemma percent_product:
  assumes "0 \<le> v" "v \<le> m" "0 < m"
  shows "py_truediv v m = Inr (b64_round (of_int v / of_int m))
     \<and> py_float_mul (b64_round (of_int v / of_int m)) 100
         = Some (b64_round (b64_round (of_int v / of_int m) * 100))
     \<and> 0 \<le> b64_round (b64_round (of_int v / of_int m) * 100)
     \<and> b64_round (b64_round (of_int v / of_int m) * 100) \<le> 100"
proof -
  define x where "x = b64_round (of_int v / of_int m)"
  have "0 \<le> (of_int v / of_int m :: rat) \<and> (of_int v / of_int m :: rat) \<le> of_int 1"
    using assms by simp
  then have x: "0 \<le> x \<and> x \<le> of_int 1"
    unfolding x_def by (intro b64_round_bounds) simp_all
  then have nx: "\<not> b64_overflow x" by (simp add: b64_overflow_def)
  define z where "z = b64_round (x * 100)"
  have "0 \<le> x * 100 \<and> x * 100 \<le> of_int 100" using x by simp
  then have z: "0 \<le> z \<and> z \<le> of_int 100"
    unfolding z_def by (intro b64_round_bounds) simp_all
  then have nz: "\<not> b64_overflow z" by (simp add: b64_overflow_def)
  have "py_truediv v m = Inr x"
    using assms(3) nx by (simp add: py_truediv_def Let_def x_def [symmetric])
  moreover have "py_float_mul x 100 = Some z"
    using nz by (simp add: py_float_mul_def Let_def z_def [symmetric])
  ultimately show ?thesis using z by (simp add: z_def x_def)
qed

lemma percent_of_floor:
  assumes "0 \<le> v" "v \<le> m" "0 < m"
  shows "percent_of v m = Inr \<lfloor>b64_round (b64_round (of_int v / of_int m) * 100)\<rfloor>
     \<and> 0 \<le> \<lfloor>b64_round (b64_round (of_int v / of_int m) * 100)\<rfloor>
     \<and> \<lfloor>b64_round (b64_round (of_int v / of_int m) * 100)\<rfloor> \<le> 100"
  using percent_product [OF assms]
  by (simp add: percent_of_def py_int_of_float_def floor_le_iff)


lemma percent_of_range:
  assumes "0 \<le> v" "v \<le> m" "0 < m"
  shows "\<exists>p. percent_of v m = Inr p \<and> 0 \<le> p \<and> p \<le> 100"
  using percent_of_floor [OF assms] by simp

section \<open>Properties of the brightness service\<close>

subsection \<open>The setter, step by step\<close>

lemma clamp_value_eq: "clamp_value v m = max 0 (min v m)"
  by (simp add: clamp_value_def)

lemma percent_of_zero: "m \<noteq> 0 \<Longrightarrow> percent_of 0 m = Inr 0"
  by (simp add: percent_of_def py_truediv_def b64_round_def b64_overflow_def
      py_float_mul_def py_int_of_float_def)

lemma percent_of_clamped:
  assumes "m \<noteq> 0"
  shows "\<exists>p. percent_of (clamp_value v m) m = Inr p \<and> 0 \<le> p \<and> p \<le> 100"
proof (cases "0 < m")
  case True
  then show ?thesis by (intro percent_of_range) (simp_all add: clamp_value_eq)
next
  case False
  with assms have "clamp_value v m = 0" by (simp add: clamp_value_eq)
  with assms show ?thesis by (simp add: percent_of_zero)
qed

lemma try_simulated:
  assumes "self_vm_mode s \<and> screen_device g = []"
  shows "screen_brightness_try g outcome v s =
     (case percent_of v (max_screen s) of
        Inl e \<Rightarrow> (Some e, s\<lparr>simulated_brightness := v\<rparr>)
      | Inr p \<Rightarrow> (None, log_call LogDebug (emit_screen p (s\<lparr>simulated_brightness := v\<rparr>))))"
  using assms by (simp add: screen_brightness_try_def Let_def)

lemma try_hardware:
  assumes "\<not> (self_vm_mode s \<and> screen_device g = [])"
  shows "screen_brightness_try g outcome v s =
     (let s1 = s\<lparr>requested := requested s @ [''brightnessctl '' @ brightnessctl_args g v]\<rparr>
      in case outcome of
           Some e \<Rightarrow> (Some e, s1)
         | None \<Rightarrow>
             (case percent_of v (max_screen s) of
                Inl e \<Rightarrow> (Some e, s1)
              | Inr p \<Rightarrow> (None, emit_screen p s1)))"
  using assms
  by (auto simp add: screen_brightness_try_def exec_brightnessctl_async_def Let_def
      split: option.splits)

lemma set_not_raised: "fst (screen_brightness_set g outcome v s) = None"
  by (simp add: screen_brightness_set_def Let_def split: prod.splits option.splits exn.splits)

lemma set_simulated:
  assumes "self_vm_mode s \<and> screen_device g = []"
  shows "simulated_brightness (snd (screen_brightness_set g outcome v s)) =
           max 0 (min v (max_screen s))"
  using assms
  by (simp add: screen_brightness_set_def try_simulated clamp_value_eq Let_def
      emit_screen_def log_call_def split: sum.splits exn.splits)

lemma set_requested:
  assumes "\<not> (self_vm_mode s \<and> screen_device g = [])"
  shows "requested (snd (screen_brightness_set g outcome v s)) =
     requested s @ [''brightnessctl '' @ brightnessctl_args g (max 0 (min v (max_screen s)))]"
  using assms
  by (simp add: screen_brightness_set_def try_hardware clamp_value_eq Let_def
      emit_screen_def log_call_def split: sum.splits exn.splits option.splits)

lemma set_keeps_attributes:
  "self_vm_mode (snd (screen_brightness_set g outcome v s)) = self_vm_mode s
   \<and> max_screen (snd (screen_brightness_set g outcome v s)) = max_screen s"
  by (cases "self_vm_mode s \<and> screen_device g = []")
    (simp_all add: screen_brightness_set_def try_hardware try_simulated Let_def
      emit_screen_def log_call_def split: sum.splits exn.splits option.splits)

lemma set_emitted_simulated:
  assumes "self_vm_mode s \<and> screen_device g = []"
    and "percent_of (clamp_value v (max_screen s)) (max_screen s) = Inr p"
  shows "emitted (snd (screen_brightness_set g outcome v s)) = emitted s @ [p]"
  using assms
  by (simp add: screen_brightness_set_def try_simulated Let_def emit_screen_def log_call_def)

lemma set_emitted_hardware:
  assumes "\<not> (self_vm_mode s \<and> screen_device g = [])"
    and "percent_of (clamp_value v (max_screen s)) (max_screen s) = Inr p"
  shows "emitted (snd (screen_brightness_set g None v s)) = emitted s @ [p]"
  using assms
  by (simp add: screen_brightness_set_def try_hardware Let_def emit_screen_def log_call_def)

lemma set_failed_hardware:
  assumes "\<not> (self_vm_mode s \<and> screen_device g = [])"
  shows "emitted (snd (screen_brightness_set g (Some e) v s)) = emitted s
     \<and> logged (snd (screen_brightness_set g (Some e) v s)) =
         logged s @ [if e = GLibError then LogError else LogException]"
  using assms
  by (cases e)
    (simp_all add: screen_brightness_set_def try_hardware Let_def emit_screen_def log_call_def)

lemma init_vm_simulated:
  assumes "vm_mode g" "screen_device g = []"
  shows "\<exists>s. Brightness_init g fs = Inr s \<and> vm_simulated g s
          \<and> simulated_brightness s = 100 \<and> emitted s = []"
  using assms by (simp add: Brightness_init_def vm_simulated_def Let_def log_call_def)

lemma set_vm_simulated:
  assumes "vm_simulated g s"
  shows "vm_simulated g (snd (screen_brightness_set g outcome v s))"
  using assms by (simp add: vm_simulated_def set_keeps_attributes)

lemma get_simulated:
  assumes "vm_simulated g s"
  shows "screen_brightness g fs s = (Inr (simulated_brightness s), s)"
  using assms by (simp add: vm_simulated_def screen_brightness_def)

lemma run_vm_simulated:
  assumes "vm_simulated g s" "0 \<le> simulated_brightness s \<and> simulated_brightness s \<le> 100"
  shows "vm_simulated g (run_setter_calls g calls s)
     \<and> 0 \<le> simulated_brightness (run_setter_calls g calls s)
     \<and> simulated_brightness (run_setter_calls g calls s) \<le> 100"
  using assms
proof (induction calls arbitrary: s)
  case Nil
  then show ?case by (simp add: run_setter_calls_def)
next
  case (Cons c calls)
  obtain outcome v where c: "c = (outcome, v)" by (cases c)
  define t where "t = snd (screen_brightness_set g outcome v s)"
  have vm: "vm_simulated g t" unfolding t_def using Cons.prems(1) by (rule set_vm_simulated)
  have "simulated_brightness t = max 0 (min v 100)"
    unfolding t_def using Cons.prems(1) by (simp add: vm_simulated_def set_simulated)
  then have "0 \<le> simulated_brightness t \<and> simulated_brightness t \<le> 100" by simp
  with vm have "vm_simulated g (run_setter_calls g calls t)
     \<and> 0 \<le> simulated_brightness (run_setter_calls g calls t)
     \<and> simulated_brightness (run_setter_calls g calls t) \<le> 100"
    by (rule Cons.IH)
  moreover have "run_setter_calls g (c # calls) s = run_setter_calls g calls t"
    by (simp add: run_setter_calls_def c t_def)
  ultimately show ?case by simp
qed


subsection \<open>The numeral in the command line\<close>

lemma decimal_nat_snoc:
  "decimal_nat (ds @ [c]) = 10 * decimal_nat ds + (of_char c - 48)"
  by (simp add: decimal_nat_def)

lemma decimal_nat_str_nat: "decimal_nat (str_nat n) = n"
proof (induction n rule: str_nat.induct)
  case (1 n)
  show ?case
  proof (cases "n < 10")
    case True
    then have "(48 + n) mod 256 = 48 + n" by simp
    with True show ?thesis
      by (simp add: str_nat.simps [of n] decimal_nat_def)
  next
    case False
    have "n mod 10 < 10" by simp
    then have "(48 + n mod 10) mod 256 = 48 + n mod 10" by simp
    with False "1.IH" show ?thesis
      by (simp add: str_nat.simps [of n] decimal_nat_snoc)
  qed
qed

lemma str_nat_digits: "str_nat n \<noteq> [] \<and> CHR ''-'' \<notin> set (str_nat n)"
proof (induction n rule: str_nat.induct)
  case (1 n)
  show ?case
  proof (cases "n < 10")
    case True
    then have "(48 + n) mod 256 = 48 + n" by simp
    then have e: "(of_char (char_of (48 + n) :: char) :: nat) = 48 + n" by simp
    have "char_of (48 + n) \<noteq> CHR ''-''"
    proof
      assume a: "char_of (48 + n) = CHR ''-''"
      from e [unfolded a] show False by simp
    qed
    with True show ?thesis by (simp add: str_nat.simps [of n])
  next
    case False
    have "n mod 10 < 10" by simp
    then have "(48 + n mod 10) mod 256 = 48 + n mod 10" by simp
    then have e: "(of_char (char_of (48 + n mod 10) :: char) :: nat) = 48 + n mod 10" by simp
    have "char_of (48 + n mod 10) \<noteq> CHR ''-''"
    proof
      assume a: "char_of (48 + n mod 10) = CHR ''-''"
      from e [unfolded a] show False by simp
    qed
    with False "1.IH" show ?thesis by (simp add: str_nat.simps [of n])
  qed
qed

lemma decimal_value_str_int: "decimal_value (str_int i) = i"
proof (cases "i < 0")
  case True
  then show ?thesis by (simp add: str_int_def decimal_value_def decimal_nat_str_nat)
next
  case False
  obtain c cs where t: "str_nat (nat i) = c # cs"
    using str_nat_digits [of "nat i"] by (cases "str_nat (nat i)") auto
  with str_nat_digits [of "nat i"] have "c \<noteq> CHR ''-''" by auto
  then have "decimal_value (str_nat (nat i)) = int (decimal_nat (str_nat (nat i)))"
    by (simp add: decimal_value_def t)
  with False show ?thesis by (simp add: str_int_def decimal_nat_str_nat)
qed

lemma str_int_examples: "str_int 0 = ''0'' \<and> str_int 255 = ''255'' \<and> str_int 100 = ''100''"
  by code_simp

subsection \<open>Claims about the setter and the getter\<close>

text \<open>
  C1: whatever integer is assigned to \<^verbatim>\<open>screen_brightness\<close>, the setter works
  with \<open>max 0 (min value max_screen)\<close>. In VM-simulated mode that is the value
  stored in \<^verbatim>\<open>simulated_brightness\<close>. In hardware mode the command line
  handed to the shell helper is \<^verbatim>\<open>brightnessctl --device '<device>' set <n>\<close>,
  where \<open><n>\<close> is the decimal numeral of that value and reads back as it. A
  value already inside \<open>[0, max_screen]\<close> is used unchanged, a negative one
  becomes \<open>0\<close>, and one above a non-negative \<open>max_screen\<close> becomes
  \<open>max_screen\<close>.
\<close>
theorem setter_clamps_value:
  "let c = max 0 (min value (max_screen s));
       s' = snd (screen_brightness_set g outcome value s)
   in (if self_vm_mode s \<and> screen_device g = []
       then simulated_brightness s' = c
       else requested s' = requested s @
              [''brightnessctl --device '' @ [CHR 0x27] @ screen_device g @ [CHR 0x27]
                 @ '' set '' @ str_int c])
      \<and> decimal_value (str_int c) = c
      \<and> (0 \<le> value \<and> value \<le> max_screen s \<longrightarrow> c = value)
      \<and> (value < 0 \<longrightarrow> c = 0)
      \<and> (0 \<le> max_screen s \<and> max_screen s < value \<longrightarrow> c = max_screen s)"
  by (simp add: Let_def set_simulated set_requested brightnessctl_args_def
      decimal_value_str_int)

theorem setter_clamps_value_witness:
  "simulated_brightness (snd (screen_brightness_set
       \<lparr>screen_device = [], vm_mode = True\<rparr> None 300
       \<lparr>self_vm_mode = True, simulated_brightness = 100, screen_backlight_path = [],
        max_screen = 100, screen_monitor = None, emitted = [], requested = [],
        logged = []\<rparr>)) = 100
   \<and> requested (snd (screen_brightness_set
       \<lparr>screen_device = ''intel_backlight'', vm_mode = False\<rparr> None (- 5)
       \<lparr>self_vm_mode = False, simulated_brightness = 100,
        screen_backlight_path = ''/sys/class/backlight/intel_backlight'',
        max_screen = 255, screen_monitor = None, emitted = [], requested = [],
        logged = []\<rparr>))
     = [''brightnessctl --device '' @ [CHR 0x27] @ ''intel_backlight'' @ [CHR 0x27]
          @ '' set 0'']
   \<and> requested (snd (screen_brightness_set
       \<lparr>screen_device = ''intel_backlight'', vm_mode = False\<rparr> None 300
       \<lparr>self_vm_mode = False, simulated_brightness = 100,
        screen_backlight_path = ''/sys/class/backlight/intel_backlight'',
        max_screen = 255, screen_monitor = None, emitted = [], requested = [],
        logged = []\<rparr>))
     = [''brightnessctl --device '' @ [CHR 0x27] @ ''intel_backlight'' @ [CHR 0x27]
          @ '' set 255'']
   \<and> decimal_value ''255'' = 255"
  using setter_clamps_value [of 300
       "\<lparr>self_vm_mode = True, simulated_brightness = 100, screen_backlight_path = [],
        max_screen = 100, screen_monitor = None, emitted = [], requested = [],
        logged = []\<rparr>" "\<lparr>screen_device = [], vm_mode = True\<rparr>" None]
    setter_clamps_value [of "- 5"
       "\<lparr>self_vm_mode = False, simulated_brightness = 100,
        screen_backlight_path = ''/sys/class/backlight/intel_backlight'',
        max_screen = 255, screen_monitor = None, emitted = [], requested = [],
        logged = []\<rparr>" "\<lparr>screen_device = ''intel_backlight'', vm_mode = False\<rparr>" None]
    setter_clamps_value [of 300
       "\<lparr>self_vm_mode = False, simulated_brightness = 100,
        screen_backlight_path = ''/sys/class/backlight/intel_backlight'',
        max_screen = 255, screen_monitor = None, emitted = [], requested = [],
        logged = []\<rparr>" "\<lparr>screen_device = ''intel_backlight'', vm_mode = False\<rparr>" None]
  by (simp add: Let_def str_int_examples)

text \<open>
  C6: in VM-simulated mode (\<open>max_screen = 100\<close>), reading the property right
  after assigning \<open>v\<close> to it returns \<open>v\<close> clamped into \<open>[0, max_screen]\<close>,
  whatever the file system holds and whatever the shell helper would do.
\<close>
theorem vm_round_trip:
  "vm_simulated g s \<Longrightarrow>
   fst (screen_brightness g fs (snd (screen_brightness_set g outcome v s)))
     = Inr (max 0 (min v (max_screen s)))
   \<and> max_screen s = 100"
  by (simp add: get_simulated set_vm_simulated) (simp add: vm_simulated_def set_simulated)

theorem vm_round_trip_witness:
  "vm_simulated \<lparr>screen_device = [], vm_mode = True\<rparr>
       \<lparr>self_vm_mode = True, simulated_brightness = 100, screen_backlight_path = [],
        max_screen = 100, screen_monitor = None, emitted = [], requested = [],
        logged = [LogInfo, LogInfo]\<rparr>
   \<and> fst (screen_brightness \<lparr>screen_device = [], vm_mode = True\<rparr> Map.empty
        (snd (screen_brightness_set \<lparr>screen_device = [], vm_mode = True\<rparr> None 130
       \<lparr>self_vm_mode = True, simulated_brightness = 100, screen_backlight_path = [],
        max_screen = 100, screen_monitor = None, emitted = [], requested = [],
        logged = [LogInfo, LogInfo]\<rparr>))) = Inr 100"
proof -
  have h: "vm_simulated \<lparr>screen_device = [], vm_mode = True\<rparr>
       \<lparr>self_vm_mode = True, simulated_brightness = 100, screen_backlight_path = [],
        max_screen = 100, screen_monitor = None, emitted = [], requested = [],
        logged = [LogInfo, LogInfo]\<rparr>"
    by (simp add: vm_simulated_def)
  show ?thesis using h vm_round_trip [OF h, of Map.empty None 130] by simp
qed

text \<open>
  C7: with \<open>max_screen = -1\<close> every assigned value is clamped to \<open>0\<close>, the
  percentage \<^verbatim>\<open>int((0 / -1) * 100)\<close> is computed without a division error
  and is \<open>0\<close>, and a call whose command submission returns emits that \<open>0\<close>
  and raises nothing.
\<close>
theorem degenerate_max_screen:
  "max_screen s = - 1 \<Longrightarrow>
     clamp_value value (max_screen s) = 0
   \<and> percent_of (clamp_value value (max_screen s)) (max_screen s) = Inr 0
   \<and> fst (screen_brightness_set g None value s) = None
   \<and> emitted (snd (screen_brightness_set g None value s)) = emitted s @ [0]"
proof -
  assume m: "max_screen s = - 1"
  have c: "clamp_value value (max_screen s) = 0" by (simp add: m clamp_value_eq)
  have p: "percent_of (clamp_value value (max_screen s)) (max_screen s) = Inr 0"
    unfolding c by (simp add: m percent_of_zero)
  have "emitted (snd (screen_brightness_set g None value s)) = emitted s @ [0]"
  proof (cases "self_vm_mode s \<and> screen_device g = []")
    case True
    then show ?thesis using p by (rule set_emitted_simulated)
  next
    case False
    then show ?thesis using p by (rule set_emitted_hardware)
  qed
  with c p show ?thesis by (simp add: set_not_raised)
qed

theorem degenerate_max_screen_witness:
  "max_screen \<lparr>self_vm_mode = False, simulated_brightness = 100, screen_backlight_path = [],
        max_screen = - 1, screen_monitor = None, emitted = [], requested = [],
        logged = []\<rparr> = - 1
   \<and> clamp_value 40 (- 1) = 0 \<and> percent_of 0 (- 1) = Inr 0
   \<and> emitted (snd (screen_brightness_set \<lparr>screen_device = [], vm_mode = False\<rparr> None 40
        \<lparr>self_vm_mode = False, simulated_brightness = 100, screen_backlight_path = [],
        max_screen = - 1, screen_monitor = None, emitted = [], requested = [],
        logged = []\<rparr>)) = [0]"
  using degenerate_max_screen [of
       "\<lparr>self_vm_mode = False, simulated_brightness = 100, screen_backlight_path = [],
        max_screen = - 1, screen_monitor = None, emitted = [], requested = [],
        logged = []\<rparr>" 40 "\<lparr>screen_device = [], vm_mode = False\<rparr>"]
  by (simp add: clamp_value_eq)

text \<open>
  C10: in VM-simulated mode the constructor succeeds and sets
  \<^verbatim>\<open>simulated_brightness\<close> to \<open>100\<close>; after any sequence of assignments
  to the property the getter returns \<^verbatim>\<open>simulated_brightness\<close>, and that
  value lies in \<open>[0, 100]\<close>.
\<close>
theorem vm_getter_in_range:
  "vm_mode g \<Longrightarrow> screen_device g = [] \<Longrightarrow>
   \<exists>s0. Brightness_init g fs = Inr s0 \<and> simulated_brightness s0 = 100 \<and>
     (\<forall>calls fs'. \<exists>b.
        fst (screen_brightness g fs' (run_setter_calls g calls s0)) = Inr b
        \<and> b = simulated_brightness (run_setter_calls g calls s0)
        \<and> 0 \<le> b \<and> b \<le> 100)"
proof -
  assume g: "vm_mode g" "screen_device g = []"
  then obtain s0 where s0: "Brightness_init g fs = Inr s0" "vm_simulated g s0"
      "simulated_brightness s0 = 100"
    using init_vm_simulated [of g fs] by blast
  have "\<exists>b. fst (screen_brightness g fs' (run_setter_calls g calls s0)) = Inr b
        \<and> b = simulated_brightness (run_setter_calls g calls s0)
        \<and> 0 \<le> b \<and> b \<le> 100" for calls fs'
    using run_vm_simulated [of g s0 calls] s0(2,3) by (simp add: get_simulated)
  with s0 show ?thesis by blast
qed

theorem vm_getter_in_range_witness:
  "vm_mode \<lparr>screen_device = [], vm_mode = True\<rparr>
   \<and> screen_device \<lparr>screen_device = [], vm_mode = True\<rparr> = []
   \<and> (\<exists>s0. Brightness_init \<lparr>screen_device = [], vm_mode = True\<rparr> Map.empty = Inr s0
        \<and> simulated_brightness s0 = 100
        \<and> (\<exists>b. fst (screen_brightness \<lparr>screen_device = [], vm_mode = True\<rparr> Map.empty
                  (run_setter_calls \<lparr>screen_device = [], vm_mode = True\<rparr>
                     [(None, 300), (None, - 5)] s0)) = Inr b \<and> 0 \<le> b \<and> b \<le> 100))"
  using vm_getter_in_range [of "\<lparr>screen_device = [], vm_mode = True\<rparr>" Map.empty]
  by simp blast


subsection \<open>Claims about the emitted payload\<close>










text \<open>
  C8 as stated fails: when the command submission raises \<^verbatim>\<open>GLib.Error\<close>, the
  exception is caught, but the emission that follows the submission inside the
  same \<^verbatim>\<open>try\<close> is skipped, so no event is raised.
\<close>
theorem command_failure_drops_event:
  "fst (screen_brightness_set
       \<lparr>screen_device = ''intel_backlight'', vm_mode = False\<rparr> (Some GLibError) 100
       \<lparr>self_vm_mode = False, simulated_brightness = 100,
        screen_backlight_path = ''/sys/class/backlight/intel_backlight'',
        max_screen = 255, screen_monitor = None, emitted = [], requested = [],
        logged = []\<rparr>) = None
   \<and> emitted (snd (screen_brightness_set
       \<lparr>screen_device = ''intel_backlight'', vm_mode = False\<rparr> (Some GLibError) 100
       \<lparr>self_vm_mode = False, simulated_brightness = 100,
        screen_backlight_path = ''/sys/class/backlight/intel_backlight'',
        max_screen = 255, screen_monitor = None, emitted = [], requested = [],
        logged = []\<rparr>)) = []"
  by (simp add: set_not_raised set_failed_hardware)

text \<open>
  C8, amended: in hardware mode no exception of the setter reaches the caller.
  When the command submission raises, the call emits nothing and logs once (an
  error for \<^verbatim>\<open>GLib.Error\<close>, an exception record otherwise). When the
  submission returns and \<open>max_screen\<close> is not \<open>0\<close>, the call emits one event.
\<close>
theorem hardware_command_failure:
  "\<not> (self_vm_mode s \<and> screen_device g = []) \<Longrightarrow>
     fst (screen_brightness_set g outcome value s) = None
   \<and> emitted (snd (screen_brightness_set g (Some e) value s)) = emitted s
   \<and> logged (snd (screen_brightness_set g (Some e) value s))
       = logged s @ [if e = GLibError then LogError else LogException]
   \<and> (max_screen s \<noteq> 0 \<longrightarrow>
        (\<exists>p. emitted (snd (screen_brightness_set g None value s)) = emitted s @ [p]))"
proof -
  assume hw: "\<not> (self_vm_mode s \<and> screen_device g = [])"
  have "\<exists>p. emitted (snd (screen_brightness_set g None value s)) = emitted s @ [p]"
    if "max_screen s \<noteq> 0"
  proof -
    from that obtain p where "percent_of (clamp_value value (max_screen s)) (max_screen s) = Inr p"
      using percent_of_clamped [of "max_screen s" "value"] by blast
    with hw have "emitted (snd (screen_brightness_set g None value s)) = emitted s @ [p]"
      by (rule set_emitted_hardware)
    then show ?thesis ..
  qed
  with set_failed_hardware [OF hw, of e "value"] show ?thesis
    by (simp add: set_not_raised)
qed

theorem hardware_command_failure_witness:
  "\<not> (self_vm_mode \<lparr>self_vm_mode = False, simulated_brightness = 100,
        screen_backlight_path = ''/sys/class/backlight/intel_backlight'',
        max_screen = 255, screen_monitor = None, emitted = [7], requested = [],
        logged = []\<rparr> \<and> screen_device \<lparr>screen_device = ''intel_backlight'', vm_mode = False\<rparr> = [])
   \<and> logged (snd (screen_brightness_set
       \<lparr>screen_device = ''intel_backlight'', vm_mode = False\<rparr> (Some OtherException) 100
       \<lparr>self_vm_mode = False, simulated_brightness = 100,
        screen_backlight_path = ''/sys/class/backlight/intel_backlight'',
        max_screen = 255, screen_monitor = None, emitted = [7], requested = [],
        logged = []\<rparr>)) = [LogException]
   \<and> emitted (snd (screen_brightness_set
       \<lparr>screen_device = ''intel_backlight'', vm_mode = False\<rparr> (Some OtherException) 100
       \<lparr>self_vm_mode = False, simulated_brightness = 100,
        screen_backlight_path = ''/sys/class/backlight/intel_backlight'',
        max_screen = 255, screen_monitor = None, emitted = [7], requested = [],
        logged = []\<rparr>)) = [7]"
  using hardware_command_failure [of
       "\<lparr>self_vm_mode = False, simulated_brightness = 100,
        screen_backlight_path = ''/sys/class/backlight/intel_backlight'',
        max_screen = 255, screen_monitor = None, emitted = [7], requested = [],
        logged = []\<rparr>" "\<lparr>screen_device = ''intel_backlight'', vm_mode = False\<rparr>"
       None 100 OtherException]
  by simp

text \<open>
  C9 as stated fails: with no backlight device, no virtual machine and no
  \<^verbatim>\<open>max_brightness\<close> file, the constructed instance has no file watch, yet
  assigning \<open>50\<close> to the property emits a \<^verbatim>\<open>screen\<close> event with payload
  \<open>0\<close>.
\<close>
theorem inert_setter_emits:
  "Brightness_init \<lparr>screen_device = [], vm_mode = False\<rparr> Map.empty
     = Inr \<lparr>self_vm_mode = False, simulated_brightness = 100, screen_backlight_path = [],
            max_screen = - 1, screen_monitor = None, emitted = [], requested = [],
            logged = []\<rparr>
   \<and> emitted (snd (screen_brightness_set \<lparr>screen_device = [], vm_mode = False\<rparr> None 50
        \<lparr>self_vm_mode = False, simulated_brightness = 100, screen_backlight_path = [],
         max_screen = - 1, screen_monitor = None, emitted = [], requested = [],
         logged = []\<rparr>)) = [0]"
  by (simp add: Brightness_init_def do_read_max_brightness_def os_path_join_def
      set_emitted_hardware [where p = 0] clamp_value_eq percent_of_zero)

lemma init_inert:
  assumes "screen_device g = []" "\<not> vm_mode g" "Brightness_init g fs = Inr s0"
  shows "screen_monitor s0 = None \<and> emitted s0 = [] \<and> requested s0 = []
     \<and> \<not> self_vm_mode s0
     \<and> (fs ''max_brightness'' = None \<longrightarrow> max_screen s0 = - 1)"
  using assms
  by (auto simp add: Brightness_init_def do_read_max_brightness_def os_path_join_def
      Let_def split: option.splits first_line.splits)

lemma get_emits_nothing: "emitted (snd (screen_brightness g fs s)) = emitted s"
  by (simp add: screen_brightness_def Let_def log_call_def
      split: option.splits first_line.splits)

text \<open>
  C9, amended: with an empty device name and no virtual machine, the constructor
  establishes no file watch and emits nothing, the watch handler has nothing to
  fire on, and the getter never emits. The setter is not gated on this mode: it
  hands a command with the empty device name to the shell helper and, when that
  returns and \<open>max_screen\<close> is not \<open>0\<close>, emits one event (payload \<open>0\<close> when
  the \<^verbatim>\<open>max_brightness\<close> file is missing).
\<close>
theorem inert_instance:
  "screen_device g = [] \<Longrightarrow> \<not> vm_mode g \<Longrightarrow> Brightness_init g fs = Inr s0 \<Longrightarrow>
     screen_monitor s0 = None \<and> emitted s0 = []
   \<and> screen_monitor_changed content s0 = Inr s0
   \<and> emitted (snd (screen_brightness g fs' s)) = emitted s
   \<and> requested (snd (screen_brightness_set g outcome value s0))
       = [''brightnessctl '' @ brightnessctl_args g (max 0 (min value (max_screen s0)))]
   \<and> (max_screen s0 \<noteq> 0 \<longrightarrow>
        (\<exists>p. emitted (snd (screen_brightness_set g None value s0)) = [p]))
   \<and> (fs ''max_brightness'' = None \<longrightarrow>
        emitted (snd (screen_brightness_set g None value s0)) = [0])"
proof -
  assume g: "screen_device g = []" "\<not> vm_mode g" and i: "Brightness_init g fs = Inr s0"
  note s0 = init_inert [OF g i]
  from s0 have hw: "\<not> (self_vm_mode s0 \<and> screen_device g = [])" by simp
  have a: "screen_monitor_changed content s0 = Inr s0"
    using s0 by (simp add: screen_monitor_changed_def)
  have b: "requested (snd (screen_brightness_set g outcome value s0))
       = [''brightnessctl '' @ brightnessctl_args g (max 0 (min value (max_screen s0)))]"
    using set_requested [OF hw, of outcome "value"] s0 by simp
  have c: "\<exists>p. emitted (snd (screen_brightness_set g None value s0)) = [p]"
    if "max_screen s0 \<noteq> 0"
  proof -
    from that obtain p where "percent_of (clamp_value value (max_screen s0)) (max_screen s0) = Inr p"
      using percent_of_clamped [of "max_screen s0" "value"] by blast
    with hw have "emitted (snd (screen_brightness_set g None value s0)) = emitted s0 @ [p]"
      by (rule set_emitted_hardware)
    with s0 show ?thesis by simp
  qed
  have d: "emitted (snd (screen_brightness_set g None value s0)) = [0]"
    if "fs ''max_brightness'' = None"
  proof -
    from that s0 have m: "max_screen s0 = - 1" by simp
    have "percent_of (clamp_value value (max_screen s0)) (max_screen s0) = Inr 0"
      unfolding m by (simp add: clamp_value_eq percent_of_zero)
    with hw have "emitted (snd (screen_brightness_set g None value s0)) = emitted s0 @ [0]"
      by (rule set_emitted_hardware)
    with s0 show ?thesis by simp
  qed
  from s0 a b c d show ?thesis by (simp add: get_emits_nothing)
qed

theorem inert_instance_witness:
  "screen_device \<lparr>screen_device = [], vm_mode = False\<rparr> = []
   \<and> \<not> vm_mode \<lparr>screen_device = [], vm_mode = False\<rparr>
   \<and> Brightness_init \<lparr>screen_device = [], vm_mode = False\<rparr> Map.empty
     = Inr \<lparr>self_vm_mode = False, simulated_brightness = 100, screen_backlight_path = [],
            max_screen = - 1, screen_monitor = None, emitted = [], requested = [],
            logged = []\<rparr>
   \<and> screen_monitor_changed (Parses 40)
        \<lparr>self_vm_mode = False, simulated_brightness = 100, screen_backlight_path = [],
         max_screen = - 1, screen_monitor = None, emitted = [], requested = [],
         logged = []\<rparr>
     = Inr \<lparr>self_vm_mode = False, simulated_brightness = 100, screen_backlight_path = [],
            max_screen = - 1, screen_monitor = None, emitted = [], requested = [],
            logged = []\<rparr>
   \<and> emitted (snd (screen_brightness_set \<lparr>screen_device = [], vm_mode = False\<rparr> None 70
        \<lparr>self_vm_mode = False, simulated_brightness = 100, screen_backlight_path = [],
         max_screen = - 1, screen_monitor = None, emitted = [], requested = [],
         logged = []\<rparr>)) = [0]"
proof -
  have i: "Brightness_init \<lparr>screen_device = [], vm_mode = False\<rparr> Map.empty
     = Inr \<lparr>self_vm_mode = False, simulated_brightness = 100, screen_backlight_path = [],
            max_screen = - 1, screen_monitor = None, emitted = [], requested = [],
            logged = []\<rparr>"
    by (simp add: Brightness_init_def do_read_max_brightness_def os_path_join_def)
  show ?thesis
    using i inert_instance [OF _ _ i, of "Parses 40" Map.empty
        "\<lparr>self_vm_mode = False, simulated_brightness = 100, screen_backlight_path = [],
         max_screen = - 1, screen_monitor = None, emitted = [], requested = [],
         logged = []\<rparr>" None 70]
    by simp
qed


section \<open>Properties of the monitor resolver\<close>

subsection \<open>The scan over the display outputs\<close>

lemma scan_monitors_none:
  "scan_monitors ls plug k = None \<longleftrightarrow> (\<forall>j < length ls. ls ! j \<noteq> PlugName (Some plug))"
proof (induction ls arbitrary: k)
  case Nil
  then show ?case by simp
next
  case (Cons l ls)
  show ?case
    by (cases l) (auto simp add: Cons.IH All_less_Suc2 simp del: all_simps)
qed

lemma scan_monitors_some:
  "scan_monitors ls plug k = Some i \<Longrightarrow>
     k \<le> i \<and> i - k < length ls \<and> ls ! (i - k) = PlugName (Some plug)
     \<and> (\<forall>j < i - k. ls ! j \<noteq> PlugName (Some plug))"
proof (induction ls arbitrary: k)
  case Nil
  then show ?case by simp
next
  case (Cons l ls)
  show ?case
  proof (cases "l = PlugName (Some plug)")
    case True
    with Cons.prems show ?thesis by simp
  next
    case False
    with Cons.prems have "scan_monitors ls plug (Suc k) = Some i"
      by (cases l) (simp_all split: if_splits)
    from Cons.IH [OF this]
    have ih: "Suc k \<le> i" "i - Suc k < length ls" "ls ! (i - Suc k) = PlugName (Some plug)"
      "\<forall>j < i - Suc k. ls ! j \<noteq> PlugName (Some plug)" by simp_all
    from ih(1) have e: "i - k = Suc (i - Suc k)" by simp
    have "\<forall>j < i - k. (l # ls) ! j \<noteq> PlugName (Some plug)"
      unfolding e using False ih(4) by (simp add: All_less_Suc2)
    with ih e show ?thesis by simp
  qed
qed


text \<open>
  C5: when the display answers for the indices \<open>0..N-1\<close>,
  \<^verbatim>\<open>get_gdk_monitor_id_from_name\<close> raises nothing and returns the smallest
  index whose plug name equals the one asked for. An index whose lookup raises,
  or that has no plug name, counts as a non-match and the scan goes on. When no
  index matches, the result is \<open>0\<close> in VM mode and \<^verbatim>\<open>None\<close> otherwise.
\<close>
theorem gdk_monitor_id_from_name:
  "display self = Inr outputs \<Longrightarrow>
   \<exists>r. get_gdk_monitor_id_from_name self plug_name = Inr r
     \<and> ((\<exists>i. r = Some i \<and> i < length outputs
              \<and> outputs ! i = PlugName (Some plug_name)
              \<and> (\<forall>j < i. outputs ! j \<noteq> PlugName (Some plug_name)))
          \<or> ((\<forall>j < length outputs. outputs ! j \<noteq> PlugName (Some plug_name))
              \<and> r = (if h_vm_mode self then Some 0 else None)))"
proof -
  assume d: "display self = Inr outputs"
  show ?thesis
  proof (cases "scan_monitors outputs plug_name 0")
    case None
    then have "\<forall>j < length outputs. outputs ! j \<noteq> PlugName (Some plug_name)"
      by (simp only: scan_monitors_none)
    with d None show ?thesis
      by (simp add: get_gdk_monitor_id_from_name_def vm_fallback_def)
  next
    case (Some i)
    from scan_monitors_some [OF this]
    have "i < length outputs \<and> outputs ! i = PlugName (Some plug_name)
        \<and> (\<forall>j < i. outputs ! j \<noteq> PlugName (Some plug_name))" by simp
    with d Some show ?thesis
      by (simp add: get_gdk_monitor_id_from_name_def)
  qed
qed

theorem gdk_monitor_id_from_name_witness:
  "get_gdk_monitor_id_from_name
      \<lparr>ident = 0, display = Inr [PlugName (Some ''eDP-1''), PlugName (Some ''HDMI-1'')],
       h_vm_mode = False\<rparr> ''HDMI-1'' = Inr (Some 1)
   \<and> get_gdk_monitor_id_from_name
      \<lparr>ident = 0, display = Inr [PlugName (Some ''eDP-1''), PlugName (Some ''HDMI-1'')],
       h_vm_mode = False\<rparr> ''DP-3'' = Inr None
   \<and> get_gdk_monitor_id_from_name
      \<lparr>ident = 0, display = Inr [PlugName (Some ''eDP-1''), PlugName (Some ''HDMI-1'')],
       h_vm_mode = True\<rparr> ''DP-3'' = Inr (Some 0)
   \<and> get_gdk_monitor_id_from_name
      \<lparr>ident = 0, display = Inr [LookupRaises OtherException, PlugName None,
                                 PlugName (Some ''HDMI-1''), PlugName (Some ''HDMI-1'')],
       h_vm_mode = True\<rparr> ''HDMI-1'' = Inr (Some 2)"
  using gdk_monitor_id_from_name [of
      "\<lparr>ident = 0, display = Inr [PlugName (Some ''eDP-1''), PlugName (Some ''HDMI-1'')],
       h_vm_mode = False\<rparr>" "[PlugName (Some ''eDP-1''), PlugName (Some ''HDMI-1'')]"
      "''HDMI-1''"]
  by (simp add: get_gdk_monitor_id_from_name_def vm_fallback_def)

lemma scan_monitors_value_some:
  "scan_monitors_value ls (Some plug_name) i = scan_monitors ls plug_name i"
  by (induction ls arbitrary: i) (simp_all split: plug_lookup.splits)

lemma gdk_monitor_id_from_value_name:
  "gdk_monitor_id_from_value self (Some plug_name) = get_gdk_monitor_id_from_name self plug_name"
  by (cases "display self")
    (simp_all add: gdk_monitor_id_from_value_def get_gdk_monitor_id_from_name_def
      scan_monitors_value_some)

subsection \<open>The monitor list and its cache\<close>

lemma func_result:
  "get_all_monitors_func self reply st =
     (Inr (case get_all_monitors_try reply of
             Inr m \<Rightarrow> m
           | Inl e \<Rightarrow> if h_vm_mode self then [(0, ''XWAYLAND0'')] else []),
      st\<lparr>sent := sent st @ [''j/monitors'']\<rparr>)"
  by (simp add: get_all_monitors_func_def Let_def split: sum.splits)

lemma call_hit:
  assumes "map_of (lru st) (ttl_key now 100, ident self) = Some m"
  shows "get_all_monitors self now reply st =
     (Inr m, st\<lparr>lru := ((ttl_key now 100, ident self), m)
                     # filter (\<lambda>e. fst e \<noteq> (ttl_key now 100, ident self)) (lru st)\<rparr>)"
  using assms by (simp add: get_all_monitors_def ttl_lru_cache_def Let_def)

lemma call_miss:
  assumes "map_of (lru st) (ttl_key now 100, ident self) = None"
  shows "get_all_monitors self now reply st =
     (Inr (case get_all_monitors_try reply of
             Inr m \<Rightarrow> m
           | Inl e \<Rightarrow> if h_vm_mode self then [(0, ''XWAYLAND0'')] else []),
      \<lparr>lru = take 5 (((ttl_key now 100, ident self),
                       (case get_all_monitors_try reply of
                          Inr m \<Rightarrow> m
                        | Inl e \<Rightarrow> if h_vm_mode self then [(0, ''XWAYLAND0'')] else []))
                     # lru st),
       sent = sent st @ [''j/monitors'']\<rparr>)"
  using assms by (simp add: get_all_monitors_def ttl_lru_cache_def func_result Let_def)

lemma call_returns: "\<exists>m. fst (get_all_monitors self now reply st) = Inr m"
proof (cases "map_of (lru st) (ttl_key now 100, ident self)")
  case None
  show ?thesis unfolding call_miss [OF None] by simp
next
  case (Some m)
  show ?thesis unfolding call_hit [OF Some] by simp
qed

lemma call_stores:
  assumes "fst (get_all_monitors self now reply st) = Inr m"
  shows "map_of (lru (snd (get_all_monitors self now reply st))) (ttl_key now 100, ident self)
           = Some m"
  using assms
  by (cases "map_of (lru st) (ttl_key now 100, ident self)") (simp_all add: call_hit call_miss)

lemma call_keys:
  "fst ` set (lru (snd (get_all_monitors self now reply st)))
     \<subseteq> insert (ttl_key now 100, ident self) (fst ` set (lru st))"
proof (cases "map_of (lru st) (ttl_key now 100, ident self)")
  case None
  have "fst ` set (take 4 (lru st)) \<subseteq> fst ` set (lru st)"
    by (intro image_mono set_take_subset)
  then show ?thesis using None by (simp add: call_miss) blast
next
  case (Some m)
  have "fst ` set (filter (\<lambda>e. fst e \<noteq> (ttl_key now 100, ident self)) (lru st))
      \<subseteq> fst ` set (lru st)"
    by (intro image_mono) simp
  then show ?thesis using Some by (simp add: call_hit) blast
qed

lemma run_keys:
  "fst ` set (lru (run_resolver_calls calls st))
     \<subseteq> fst ` set (lru st) \<union> (\<lambda>(h, t, r). (ttl_key t 100, ident h)) ` set calls"
proof (induction calls arbitrary: st)
  case Nil
  then show ?case by (simp add: run_resolver_calls_def)
next
  case (Cons c calls)
  obtain h t r where c: "c = (h, t, r)" by (cases c)
  define st1 where "st1 = snd (get_all_monitors h t r st)"
  define K where "K = (\<lambda>(h, t, r). (ttl_key t 100, ident h)) ` set calls"
  have run: "run_resolver_calls (c # calls) st = run_resolver_calls calls st1"
    by (simp add: run_resolver_calls_def c st1_def)
  have step: "fst ` set (lru st1) \<subseteq> insert (ttl_key t 100, ident h) (fst ` set (lru st))"
    unfolding st1_def by (rule call_keys)
  have "fst ` set (lru (run_resolver_calls calls st1)) \<subseteq> fst ` set (lru st1) \<union> K"
    unfolding K_def by (rule Cons.IH)
  also have "\<dots> \<subseteq> insert (ttl_key t 100, ident h) (fst ` set (lru st)) \<union> K"
    using step by (rule Un_mono) simp
  also have "\<dots> = fst ` set (lru st) \<union> (\<lambda>(h, t, r). (ttl_key t 100, ident h)) ` set (c # calls)"
    by (simp add: c K_def)
  finally show ?case unfolding run .
qed

text \<open>
  C4: an execution of \<^verbatim>\<open>get_all_monitors\<close> that asks the socket (no entry
  for the current key) and fails there, in the request, in the JSON decoding or
  on an object without \<^verbatim>\<open>id\<close> or \<^verbatim>\<open>name\<close>, raises nothing: it
  returns the single entry \<open>0 \<mapsto> XWAYLAND0\<close> in VM mode and the empty mapping
  otherwise.
\<close>
theorem failed_request_falls_back:
  "get_all_monitors_try reply = Inl e \<Longrightarrow>
   map_of (lru st) (ttl_key now 100, ident self) = None \<Longrightarrow>
     fst (get_all_monitors self now reply st)
       = Inr (if h_vm_mode self then [(0, ''XWAYLAND0'')] else [])
   \<and> fst (get_all_monitors_func self reply st)
       = Inr (if h_vm_mode self then [(0, ''XWAYLAND0'')] else [])
   \<and> sent (snd (get_all_monitors self now reply st)) = sent st @ [''j/monitors'']"
  by (simp add: call_miss func_result)

theorem failed_request_falls_back_witness:
  "get_all_monitors_try (MonitorsRaises OtherException) = Inl OtherException
   \<and> map_of (lru empty_resolver)
        (ttl_key 1234 100, ident \<lparr>ident = 0, display = Inr [], h_vm_mode = True\<rparr>) = None
   \<and> fst (get_all_monitors \<lparr>ident = 0, display = Inr [], h_vm_mode = True\<rparr> 1234
            (MonitorsRaises OtherException) empty_resolver) = Inr [(0, ''XWAYLAND0'')]"
proof -
  have a: "get_all_monitors_try (MonitorsRaises OtherException) = Inl OtherException"
    by (simp add: get_all_monitors_try_def)
  have b: "map_of (lru empty_resolver)
        (ttl_key 1234 100, ident \<lparr>ident = 0, display = Inr [], h_vm_mode = True\<rparr>) = None"
    by (simp add: empty_resolver_def)
  show ?thesis using a b failed_request_falls_back [OF a b] by simp
qed

subsection \<open>Retention in the bounded store\<close>

lemma call_distinct:
  assumes "distinct (map fst (lru st))"
  shows "distinct (map fst (lru (snd (get_all_monitors self now reply st))))"
proof (cases "map_of (lru st) (ttl_key now 100, ident self)")
  case None
  then have "(ttl_key now 100, ident self) \<notin> set (map fst (lru st))"
    by (simp add: map_of_eq_None_iff)
  with assms have "distinct ((ttl_key now 100, ident self) # map fst (lru st))" by simp
  then have "distinct (take 5 ((ttl_key now 100, ident self) # map fst (lru st)))"
    by (rule distinct_take)
  then show ?thesis unfolding call_miss [OF None] by (simp add: take_map)
next
  case (Some m)
  have "distinct (map fst (filter (\<lambda>e. fst e \<noteq> (ttl_key now 100, ident self)) (lru st)))"
    using assms by (rule distinct_map_filter)
  then show ?thesis unfolding call_hit [OF Some] by auto
qed

lemma run_distinct:
  assumes "distinct (map fst (lru st))"
  shows "distinct (map fst (lru (run_resolver_calls calls st)))"
  using assms
proof (induction calls arbitrary: st)
  case Nil
  then show ?case by (simp add: run_resolver_calls_def)
next
  case (Cons c calls)
  obtain h t r where c: "c = (h, t, r)" by (cases c)
  have "run_resolver_calls (c # calls) st
      = run_resolver_calls calls (snd (get_all_monitors h t r st))"
    by (simp add: run_resolver_calls_def c)
  with Cons.IH [OF call_distinct [OF Cons.prems]] show ?case by simp
qed

lemma map_of_middle:
  assumes "distinct (map fst (pre @ (k, v) # post))"
  shows "map_of (pre @ (k, v) # post) k = Some v"
  using assms by (induction pre) auto

lemma call_keeps_entry:
  assumes d: "distinct (map fst (lru st))"
    and l: "lru st = pre @ (key, m) # post"
    and p: "fst ` set pre \<subseteq> D"
    and D: "finite D" "card D \<le> 4" "key \<notin> D"
    and k: "(ttl_key now 100, ident self) \<in> insert key D"
  shows "\<exists>pre' post'. lru (snd (get_all_monitors self now reply st)) = pre' @ (key, m) # post'
           \<and> fst ` set pre' \<subseteq> D"
proof (cases "(ttl_key now 100, ident self) = key")
  case True
  have "map_of (lru st) key = Some m" using d unfolding l by (rule map_of_middle)
  then have hit: "map_of (lru st) (ttl_key now 100, ident self) = Some m" by (simp add: True)
  have "lru (snd (get_all_monitors self now reply st))
      = [] @ (key, m) # filter (\<lambda>e. fst e \<noteq> key) (lru st)"
    unfolding call_hit [OF hit] by (simp add: True)
  then show ?thesis
    by (intro exI [of _ "[]"] exI [of _ "filter (\<lambda>e. fst e \<noteq> key) (lru st)"]) simp
next
  case False
  define k where "k = (ttl_key now 100, ident self)"
  from False k have kD: "k \<in> D" and kk: "k \<noteq> key" by (simp_all add: k_def)
  show ?thesis
  proof (cases "map_of (lru st) k")
    case (Some v)
    have "lru (snd (get_all_monitors self now reply st))
        = (k, v) # filter (\<lambda>e. fst e \<noteq> k) (lru st)"
      using call_hit [of st now self v reply] Some by (simp add: k_def)
    also have "\<dots> = ((k, v) # filter (\<lambda>e. fst e \<noteq> k) pre) @ (key, m)
          # filter (\<lambda>e. fst e \<noteq> k) post"
      using kk by (simp add: l)
    finally show ?thesis using p kD
      by (intro exI [of _ "(k, v) # filter (\<lambda>e. fst e \<noteq> k) pre"]
          exI [of _ "filter (\<lambda>e. fst e \<noteq> k) post"]) auto
  next
    case None
    then have "k \<notin> fst ` set (lru st)" by (simp add: map_of_eq_None_iff)
    then have "k \<notin> fst ` set pre" by (auto simp add: l)
    with p have sub: "fst ` set pre \<subseteq> D - {k}" by blast
    have "distinct (map fst pre)" using d by (simp add: l)
    then have "length pre = card (fst ` set pre)"
      by (metis distinct_card length_map set_map)
    also have "\<dots> \<le> card (D - {k})" using sub D(1) by (intro card_mono) auto
    also have "\<dots> \<le> 3" using D kD by simp
    finally have len: "length pre \<le> 3" .
    define v where "v = (case get_all_monitors_try reply of
                          Inr m \<Rightarrow> m
                        | Inl e \<Rightarrow> if h_vm_mode self then [(0, ''XWAYLAND0'')] else [])"
    have "lru (snd (get_all_monitors self now reply st)) = take 5 ((k, v) # lru st)"
      using call_miss [of st now self reply] None by (simp add: k_def v_def)
    also have "\<dots> = take 5 (((k, v) # pre @ [(key, m)]) @ post)" by (simp add: l)
    also have "\<dots> = ((k, v) # pre @ [(key, m)])
          @ take (5 - length ((k, v) # pre @ [(key, m)])) post"
      using len by (subst take_append) simp
    finally show ?thesis using p kD
      by (intro exI [of _ "(k, v) # pre"] exI [of _ "take (5 - length ((k, v) # pre @ [(key, m)])) post"])
        auto
  qed
qed

lemma run_keeps_entry:
  assumes "distinct (map fst (lru st))"
    and "lru st = pre @ (key, m) # post"
    and "fst ` set pre \<subseteq> D"
    and D: "finite D" "card D \<le> 4" "key \<notin> D"
    and "(\<lambda>(h, t, r). (ttl_key t 100, ident h)) ` set calls \<subseteq> insert key D"
  shows "map_of (lru (run_resolver_calls calls st)) key = Some m"
  using assms(1,2,3,7)
proof (induction calls arbitrary: st pre post)
  case Nil
  have "map_of (lru st) key = Some m"
    using Nil.prems(1) unfolding Nil.prems(2) by (rule map_of_middle)
  then show ?case by (simp add: run_resolver_calls_def)
next
  case (Cons c calls)
  obtain h t r where c: "c = (h, t, r)" by (cases c)
  define st1 where "st1 = snd (get_all_monitors h t r st)"
  have run: "run_resolver_calls (c # calls) st = run_resolver_calls calls st1"
    by (simp add: run_resolver_calls_def c st1_def)
  from Cons.prems(4) have k: "(ttl_key t 100, ident h) \<in> insert key D"
    and rest: "(\<lambda>(h, t, r). (ttl_key t 100, ident h)) ` set calls \<subseteq> insert key D"
    by (simp_all add: c)
  obtain pre' post' where "lru st1 = pre' @ (key, m) # post'" "fst ` set pre' \<subseteq> D"
    using call_keeps_entry [OF Cons.prems(1,2,3) D k] unfolding st1_def by blast
  moreover have "distinct (map fst (lru st1))"
    unfolding st1_def using Cons.prems(1) by (rule call_distinct)
  ultimately show ?case unfolding run using rest by (intro Cons.IH)
qed

lemma call_front:
  assumes "fst (get_all_monitors self now reply st) = Inr m"
  shows "\<exists>post. lru (snd (get_all_monitors self now reply st))
           = ((ttl_key now 100, ident self), m) # post"
proof (cases "map_of (lru st) (ttl_key now 100, ident self)")
  case None
  show ?thesis using assms unfolding call_miss [OF None] by simp
next
  case (Some v)
  show ?thesis using assms unfolding call_hit [OF Some] by simp
qed

text \<open>
  C3 as stated fails: the store keeps five entries and the instance is part of
  the key. After a call of one instance at time \<open>1000\<close>, five other instances
  call at \<open>1001\<close> to \<open>1005\<close>; the call of the first instance at \<open>1006\<close>, in
  the same window, finds its entry dropped, sends the request again and returns
  the mapping of the new reply.
\<close>
theorem monitors_cache_evicted:
  "ttl_key 1006 100 = ttl_key 1000 100
   \<and> fst (get_all_monitors
          \<lparr>ident = 0, display = Inr [], h_vm_mode = False\<rparr>
          1000 (MonitorsDecoded [\<lparr>mon_id = Some 0, mon_name = Some ''eDP-1''\<rparr>])
          empty_resolver)
       = Inr [(0, ''eDP-1'')]
   \<and> fst (get_all_monitors
          \<lparr>ident = 0, display = Inr [], h_vm_mode = False\<rparr>
          1006 (MonitorsDecoded [\<lparr>mon_id = Some 0, mon_name = Some ''DP-2''\<rparr>])
          (run_resolver_calls
            [(\<lparr>ident = 1, display = Inr [], h_vm_mode = False\<rparr>,
                1001, (MonitorsDecoded [\<lparr>mon_id = Some 0, mon_name = Some ''eDP-1''\<rparr>])),
             (\<lparr>ident = 2, display = Inr [], h_vm_mode = False\<rparr>,
                1002, (MonitorsDecoded [\<lparr>mon_id = Some 0, mon_name = Some ''eDP-1''\<rparr>])),
             (\<lparr>ident = 3, display = Inr [], h_vm_mode = False\<rparr>,
                1003, (MonitorsDecoded [\<lparr>mon_id = Some 0, mon_name = Some ''eDP-1''\<rparr>])),
             (\<lparr>ident = 4, display = Inr [], h_vm_mode = False\<rparr>,
                1004, (MonitorsDecoded [\<lparr>mon_id = Some 0, mon_name = Some ''eDP-1''\<rparr>])),
             (\<lparr>ident = 5, display = Inr [], h_vm_mode = False\<rparr>,
                1005, (MonitorsDecoded [\<lparr>mon_id = Some 0, mon_name = Some ''eDP-1''\<rparr>]))]
            (snd (get_all_monitors
                    \<lparr>ident = 0, display = Inr [], h_vm_mode = False\<rparr>
                    1000 (MonitorsDecoded [\<lparr>mon_id = Some 0, mon_name = Some ''eDP-1''\<rparr>])
                    empty_resolver))))
       = Inr [(0, ''DP-2'')]
   \<and> sent (snd (get_all_monitors
          \<lparr>ident = 0, display = Inr [], h_vm_mode = False\<rparr>
          1006 (MonitorsDecoded [\<lparr>mon_id = Some 0, mon_name = Some ''DP-2''\<rparr>])
          (run_resolver_calls
            [(\<lparr>ident = 1, display = Inr [], h_vm_mode = False\<rparr>,
                1001, (MonitorsDecoded [\<lparr>mon_id = Some 0, mon_name = Some ''eDP-1''\<rparr>])),
             (\<lparr>ident = 2, display = Inr [], h_vm_mode = False\<rparr>,
                1002, (MonitorsDecoded [\<lparr>mon_id = Some 0, mon_name = Some ''eDP-1''\<rparr>])),
             (\<lparr>ident = 3, display = Inr [], h_vm_mode = False\<rparr>,
                1003, (MonitorsDecoded [\<lparr>mon_id = Some 0, mon_name = Some ''eDP-1''\<rparr>])),
             (\<lparr>ident = 4, display = Inr [], h_vm_mode = False\<rparr>,
                1004, (MonitorsDecoded [\<lparr>mon_id = Some 0, mon_name = Some ''eDP-1''\<rparr>])),
             (\<lparr>ident = 5, display = Inr [], h_vm_mode = False\<rparr>,
                1005, (MonitorsDecoded [\<lparr>mon_id = Some 0, mon_name = Some ''eDP-1''\<rparr>]))]
            (snd (get_all_monitors
                    \<lparr>ident = 0, display = Inr [], h_vm_mode = False\<rparr>
                    1000 (MonitorsDecoded [\<lparr>mon_id = Some 0, mon_name = Some ''eDP-1''\<rparr>])
                    empty_resolver)))))
       = sent (run_resolver_calls
          [(\<lparr>ident = 1, display = Inr [], h_vm_mode = False\<rparr>,
              1001, (MonitorsDecoded [\<lparr>mon_id = Some 0, mon_name = Some ''eDP-1''\<rparr>])),
           (\<lparr>ident = 2, display = Inr [], h_vm_mode = False\<rparr>,
              1002, (MonitorsDecoded [\<lparr>mon_id = Some 0, mon_name = Some ''eDP-1''\<rparr>])),
           (\<lparr>ident = 3, display = Inr [], h_vm_mode = False\<rparr>,
              1003, (MonitorsDecoded [\<lparr>mon_id = Some 0, mon_name = Some ''eDP-1''\<rparr>])),
           (\<lparr>ident = 4, display = Inr [], h_vm_mode = False\<rparr>,
              1004, (MonitorsDecoded [\<lparr>mon_id = Some 0, mon_name = Some ''eDP-1''\<rparr>])),
           (\<lparr>ident = 5, display = Inr [], h_vm_mode = False\<rparr>,
              1005, (MonitorsDecoded [\<lparr>mon_id = Some 0, mon_name = Some ''eDP-1''\<rparr>]))]
          (snd (get_all_monitors
                  \<lparr>ident = 0, display = Inr [], h_vm_mode = False\<rparr>
                  1000 (MonitorsDecoded [\<lparr>mon_id = Some 0, mon_name = Some ''eDP-1''\<rparr>])
                  empty_resolver)))
         @ [''j/monitors'']"
  by code_simp

text \<open>
  C3, amended: take any history of calls from the empty cache, then a call of
  one instance at time \<open>now_a\<close>, any further calls, and a call of the same
  instance at time \<open>now_b\<close>. If \<open>now_b\<close> lies in the window of \<open>now_a\<close> and
  the calls in between used at most four other keys (the store keeps five), the
  last call returns what the first returned and sends nothing. If the window of
  \<open>now_b\<close> is later than the window of every earlier call, the last call sends
  the request again and returns what the new reply gives.
\<close>
theorem monitors_cache_window:
  fixes self :: hyprland
    and history mid :: "(hyprland \<times> rat \<times> monitors_reply) list"
    and now_a now_b :: rat
    and reply_a reply_b :: monitors_reply
  defines "st \<equiv> run_resolver_calls history empty_resolver"
  defines "c1 \<equiv> get_all_monitors self now_a reply_a st"
  defines "before \<equiv> run_resolver_calls mid (snd c1)"
  defines "c2 \<equiv> get_all_monitors self now_b reply_b before"
  shows "(ttl_key now_b 100 = ttl_key now_a 100
          \<and> card ((\<lambda>(h, t, r). (ttl_key t 100, ident h)) ` set mid
                   - {(ttl_key now_a 100, ident self)}) \<le> 4 \<longrightarrow>
            fst c2 = fst c1 \<and> sent (snd c2) = sent before)
     \<and> ((\<forall>(h, t, r) \<in> set (history @ mid). ttl_key t 100 < ttl_key now_b 100)
          \<and> ttl_key now_a 100 < ttl_key now_b 100 \<longrightarrow>
            fst c2 = Inr (case get_all_monitors_try reply_b of
                            Inr m \<Rightarrow> m
                          | Inl e \<Rightarrow> if h_vm_mode self then [(0, ''XWAYLAND0'')] else [])
            \<and> sent (snd c2) = sent before @ [''j/monitors''])"
proof -
  define key1 where "key1 = (ttl_key now_a 100, ident self)"
  define key2 where "key2 = (ttl_key now_b 100, ident self)"
  define K where "K = (\<lambda>(h, t, r). (ttl_key t 100, ident h)) ` set mid"
  obtain m1 where m1: "fst c1 = Inr m1"
    unfolding c1_def using call_returns by blast
  have same: "fst c2 = fst c1 \<and> sent (snd c2) = sent before"
    if w: "ttl_key now_b 100 = ttl_key now_a 100" and few: "card (K - {key1}) \<le> 4"
  proof -
    have "distinct (map fst (lru st))"
      unfolding st_def by (intro run_distinct) (simp add: empty_resolver_def)
    then have d1: "distinct (map fst (lru (snd c1)))"
      unfolding c1_def by (rule call_distinct)
    obtain post where front: "lru (snd c1) = [] @ (key1, m1) # post"
      using call_front [OF m1 [unfolded c1_def]] by (auto simp add: c1_def key1_def)
    have "map_of (lru before) key1 = Some m1"
      unfolding before_def
    proof (rule run_keeps_entry [OF d1 front, where D = "K - {key1}"])
      show "fst ` set [] \<subseteq> K - {key1}" by simp
      show "finite (K - {key1})" by (simp add: K_def)
      show "card (K - {key1}) \<le> 4" by (rule few)
      show "key1 \<notin> K - {key1}" by simp
      have "K \<subseteq> insert key1 (K - {key1})" by blast
      then show "(\<lambda>(h, t, r). (ttl_key t 100, ident h)) ` set mid \<subseteq> insert key1 (K - {key1})"
        by (simp only: K_def)
    qed
    then have "map_of (lru before) (ttl_key now_b 100, ident self) = Some m1"
      by (simp add: key1_def w)
    from call_hit [OF this] show ?thesis
      by (simp add: c2_def m1)
  qed
  have later: "fst c2 = Inr (case get_all_monitors_try reply_b of
                            Inr m \<Rightarrow> m
                          | Inl e \<Rightarrow> if h_vm_mode self then [(0, ''XWAYLAND0'')] else [])
            \<and> sent (snd c2) = sent before @ [''j/monitors'']"
    if h: "\<forall>(h, t, r) \<in> set (history @ mid). ttl_key t 100 < ttl_key now_b 100"
      and w: "ttl_key now_a 100 < ttl_key now_b 100"
  proof -
    have k0: "fst ` set (lru st) \<subseteq> (\<lambda>(h, t, r). (ttl_key t 100, ident h)) ` set history"
      using run_keys [of history empty_resolver] by (simp add: st_def empty_resolver_def)
    have k1: "fst ` set (lru (snd c1)) \<subseteq> insert key1 (fst ` set (lru st))"
      unfolding c1_def key1_def by (rule call_keys)
    have k2: "fst ` set (lru before) \<subseteq> fst ` set (lru (snd c1)) \<union> K"
      unfolding before_def K_def by (rule run_keys)
    have h1: "ttl_key b 100 < ttl_key now_b 100" if "(a, b, r) \<in> set history" for a b r
      using bspec [OF h, of "(a, b, r)"] that by simp
    have h2: "ttl_key b 100 < ttl_key now_b 100" if "(a, b, r) \<in> set mid" for a b r
      using bspec [OF h, of "(a, b, r)"] that by simp
    have "fst k < ttl_key now_b 100" if "k \<in> fst ` set (lru before)" for k
    proof -
      from that k2 k1 k0 consider "k = key1"
        | "k \<in> (\<lambda>(h, t, r). (ttl_key t 100, ident h)) ` set history" | "k \<in> K" by blast
      then show ?thesis
      proof cases
        case 1
        then show ?thesis using w by (simp add: key1_def)
      next
        case 2
        then obtain a b r where "(a, b, r) \<in> set history" "k = (ttl_key b 100, ident a)"
          by auto
        then show ?thesis by (simp add: h1)
      next
        case 3
        then obtain a b r where "(a, b, r) \<in> set mid" "k = (ttl_key b 100, ident a)"
          unfolding K_def by auto
        then show ?thesis by (simp add: h2)
      qed
    qed
    then have "key2 \<in> fst ` set (lru before) \<Longrightarrow> fst key2 < ttl_key now_b 100" .
    then have "key2 \<notin> fst ` set (lru before)" unfolding key2_def by auto
    then have "map_of (lru before) (ttl_key now_b 100, ident self) = None"
      by (simp add: map_of_eq_None_iff key2_def)
    from call_miss [OF this] show ?thesis
      by (simp add: c2_def)
  qed
  from same later show ?thesis unfolding K_def key1_def by blast
qed

lemma ttl_key_examples:
  "ttl_key 950 100 = 9 \<and> ttl_key 1000 100 = 10 \<and> ttl_key 1010 100 = 10
   \<and> ttl_key 1099 100 = 10 \<and> ttl_key 1100 100 = 11"
  by code_simp

theorem monitors_cache_window_witness:
  "ttl_key 1099 100 = ttl_key 1000 100
   \<and> fst (get_all_monitors
          \<lparr>ident = 0, display = Inr [], h_vm_mode = False\<rparr>
          1099 (MonitorsDecoded [\<lparr>mon_id = Some 0, mon_name = Some ''DP-2''\<rparr>])
          (run_resolver_calls
            [(\<lparr>ident = 1, display = Inr [], h_vm_mode = False\<rparr>,
              1010, (MonitorsDecoded [\<lparr>mon_id = Some 0, mon_name = Some ''DP-2''\<rparr>]))]
            (snd (get_all_monitors
                \<lparr>ident = 0, display = Inr [], h_vm_mode = False\<rparr>
                1000 (MonitorsDecoded [\<lparr>mon_id = Some 0, mon_name = Some ''eDP-1''\<rparr>])
                (run_resolver_calls
                  []
                  empty_resolver)))))
       = Inr [(0, ''eDP-1'')]
   \<and> sent (snd (get_all_monitors
          \<lparr>ident = 0, display = Inr [], h_vm_mode = False\<rparr>
          1099 (MonitorsDecoded [\<lparr>mon_id = Some 0, mon_name = Some ''DP-2''\<rparr>])
          (run_resolver_calls
            [(\<lparr>ident = 1, display = Inr [], h_vm_mode = False\<rparr>,
              1010, (MonitorsDecoded [\<lparr>mon_id = Some 0, mon_name = Some ''DP-2''\<rparr>]))]
            (snd (get_all_monitors
                \<lparr>ident = 0, display = Inr [], h_vm_mode = False\<rparr>
                1000 (MonitorsDecoded [\<lparr>mon_id = Some 0, mon_name = Some ''eDP-1''\<rparr>])
                (run_resolver_calls
                  []
                  empty_resolver))))))
       = [''j/monitors'', ''j/monitors'']
   \<and> ttl_key 950 100 < ttl_key 1100 100
   \<and> ttl_key 1000 100 < ttl_key 1100 100
   \<and> fst (get_all_monitors
          \<lparr>ident = 0, display = Inr [], h_vm_mode = False\<rparr>
          1100 (MonitorsDecoded [\<lparr>mon_id = Some 0, mon_name = Some ''DP-2''\<rparr>])
          (run_resolver_calls
            []
            (snd (get_all_monitors
                \<lparr>ident = 0, display = Inr [], h_vm_mode = False\<rparr>
                1000 (MonitorsDecoded [\<lparr>mon_id = Some 0, mon_name = Some ''eDP-1''\<rparr>])
                (run_resolver_calls
                  [(\<lparr>ident = 0, display = Inr [], h_vm_mode = False\<rparr>,
                    950, (MonitorsDecoded [\<lparr>mon_id = Some 0, mon_name = Some ''eDP-1''\<rparr>]))]
                  empty_resolver)))))
       = Inr [(0, ''DP-2'')]
   \<and> sent (snd (get_all_monitors
          \<lparr>ident = 0, display = Inr [], h_vm_mode = False\<rparr>
          1100 (MonitorsDecoded [\<lparr>mon_id = Some 0, mon_name = Some ''DP-2''\<rparr>])
          (run_resolver_calls
            []
            (snd (get_all_monitors
                \<lparr>ident = 0, display = Inr [], h_vm_mode = False\<rparr>
                1000 (MonitorsDecoded [\<lparr>mon_id = Some 0, mon_name = Some ''eDP-1''\<rparr>])
                (run_resolver_calls
                  [(\<lparr>ident = 0, display = Inr [], h_vm_mode = False\<rparr>,
                    950, (MonitorsDecoded [\<lparr>mon_id = Some 0, mon_name = Some ''eDP-1''\<rparr>]))]
                  empty_resolver))))))
       = [''j/monitors'', ''j/monitors'', ''j/monitors'']"
  using
    monitors_cache_window [where
      self = "\<lparr>ident = 0, display = Inr [], h_vm_mode = False\<rparr>"
      and history = "[]" and now_a = 1000
      and reply_a = "(MonitorsDecoded [\<lparr>mon_id = Some 0, mon_name = Some ''eDP-1''\<rparr>])"
      and mid = "[(\<lparr>ident = 1, display = Inr [], h_vm_mode = False\<rparr>,
                   1010, (MonitorsDecoded [\<lparr>mon_id = Some 0, mon_name = Some ''DP-2''\<rparr>]))]"
      and now_b = 1099
      and reply_b = "(MonitorsDecoded [\<lparr>mon_id = Some 0, mon_name = Some ''DP-2''\<rparr>])"]
    monitors_cache_window [where
      self = "\<lparr>ident = 0, display = Inr [], h_vm_mode = False\<rparr>"
      and history = "[(\<lparr>ident = 0, display = Inr [], h_vm_mode = False\<rparr>,
                       950, (MonitorsDecoded [\<lparr>mon_id = Some 0, mon_name = Some ''eDP-1''\<rparr>]))]"
      and now_a = 1000
      and reply_a = "(MonitorsDecoded [\<lparr>mon_id = Some 0, mon_name = Some ''eDP-1''\<rparr>])"
      and mid = "[]" and now_b = 1100
      and reply_b = "(MonitorsDecoded [\<lparr>mon_id = Some 0, mon_name = Some ''DP-2''\<rparr>])"]
  by (simp add: run_resolver_calls_def get_all_monitors_def ttl_lru_cache_def
      get_all_monitors_func_def get_all_monitors_try_def ttl_key_examples
      empty_resolver_def Let_def)

end
